theory Spec2Isabelle
  imports Complex_Main
begin

section \<open>JavaScript values used by the components\<close>

text \<open>
  A JavaScript number is an IEEE 754 double: \<open>NaN\<close>, one of the two infinities, or a finite
  value, which is modelled by the rational it denotes (the two zeros are not told apart).
  Every operation computes its exact result and rounds it to the nearest double, ties to
  the even significand.
\<close>

datatype jsnum = NaN | PosInf | NegInf | Fin rat

definition pow2 :: "int \<Rightarrow> rat" where
  "pow2 e = (if 0 \<le> e then 2 ^ nat e else 1 / 2 ^ nat (- e))"

text \<open>
  Normalisation of a positive magnitude \<open>a * 2 ^ e\<close>: the significand is halved until it is
  below \<open>2 ^ 53\<close>, then doubled until it reaches \<open>2 ^ 52\<close> or the exponent reaches that of the
  subnormal numbers, \<open>- 1074\<close>.
\<close>

function scale_down :: "rat \<Rightarrow> int \<Rightarrow> rat \<times> int" where
  "scale_down a e = (if 2 ^ 53 \<le> a then scale_down (a / 2) (e + 1) else (a, e))"
  by pat_completeness auto
termination
proof (relation "measure (\<lambda>(a, e). nat \<lfloor>a\<rfloor>)")
  show "wf (measure (\<lambda>(a, e). nat \<lfloor>a\<rfloor>))" by simp
next
  fix a :: rat and e :: int
  assume "2 ^ 53 \<le> a"
  then have big: "2 \<le> a" by simp
  have "of_int \<lfloor>a / 2\<rfloor> \<le> a / 2" by (rule of_int_floor_le)
  also have "\<dots> \<le> a - 1" using big by simp
  also have "\<dots> < of_int \<lfloor>a\<rfloor>" by linarith
  finally have "\<lfloor>a / 2\<rfloor> < \<lfloor>a\<rfloor>" by simp
  moreover have "0 < \<lfloor>a\<rfloor>" using big by linarith
  ultimately have "nat \<lfloor>a / 2\<rfloor> < nat \<lfloor>a\<rfloor>" by linarith
  then show "((a / 2, e + 1), (a, e)) \<in> measure (\<lambda>(a, e). nat \<lfloor>a\<rfloor>)"
    unfolding in_measure by (simp only: prod.case)
qed

function scale_up :: "rat \<Rightarrow> int \<Rightarrow> rat \<times> int" where
  "scale_up a e = (if a < 2 ^ 52 \<and> - 1074 < e then scale_up (a * 2) (e - 1) else (a, e))"
  by pat_completeness auto
termination
  by (relation "measure (\<lambda>(a, e). nat (e + 1074))") auto

declare scale_down.simps [simp del]

declare scale_up.simps [simp del]

definition round_half_even :: "rat \<Rightarrow> int" where
  "round_half_even x =
     (let f = \<lfloor>x\<rfloor>; r = x - of_int f
      in if r < 1 / 2 then f else if 1 / 2 < r then f + 1 else if even f then f else f + 1)"

text \<open>The double nearest to a positive rational, as a rational (\<open>2 ^ 1024\<close> on overflow).\<close>

definition round_magnitude :: "rat \<Rightarrow> rat" where
  "round_magnitude a =
     (case scale_down a 0 of
        (a1, e1) \<Rightarrow>
          (case scale_up a1 e1 of (a2, e2) \<Rightarrow> of_int (round_half_even a2) * pow2 e2))"

definition round_double :: "rat \<Rightarrow> jsnum" where
  "round_double q =
     (if q = 0 then Fin 0
      else if 2 ^ 1024 \<le> round_magnitude \<bar>q\<bar> then (if q < 0 then NegInf else PosInf)
      else Fin (if q < 0 then - round_magnitude \<bar>q\<bar> else round_magnitude \<bar>q\<bar>))"

text \<open>The operator \<^verbatim>\<open>+\<close> on two numbers.\<close>

fun js_add :: "jsnum \<Rightarrow> jsnum \<Rightarrow> jsnum" where
  "js_add NaN _ = NaN"
| "js_add _ NaN = NaN"
| "js_add PosInf NegInf = NaN"
| "js_add NegInf PosInf = NaN"
| "js_add PosInf _ = PosInf"
| "js_add _ PosInf = PosInf"
| "js_add NegInf _ = NegInf"
| "js_add _ NegInf = NegInf"
| "js_add (Fin a) (Fin b) = round_double (a + b)"

text \<open>The operator \<^verbatim>\<open><=\<close> on two numbers: every comparison with \<open>NaN\<close> is false.\<close>

fun js_le :: "jsnum \<Rightarrow> jsnum \<Rightarrow> bool" where
  "js_le NaN _ = False"
| "js_le _ NaN = False"
| "js_le NegInf _ = True"
| "js_le _ PosInf = True"
| "js_le PosInf _ = False"
| "js_le _ NegInf = False"
| "js_le (Fin a) (Fin b) = (a \<le> b)"

text \<open>\<^verbatim>\<open>Boolean(x)\<close> for a number: false for \<open>0\<close> and \<open>NaN\<close>.\<close>

fun toBoolean_num :: "jsnum \<Rightarrow> bool" where
  "toBoolean_num NaN = False"
| "toBoolean_num (Fin q) = (q \<noteq> 0)"
| "toBoolean_num _ = True"

text \<open>
  Truthiness of a state flag that holds \<^verbatim>\<open>null\<close> (\<open>None\<close>) or a boolean, and of a string
  that may be \<^verbatim>\<open>null\<close> or \<^verbatim>\<open>undefined\<close> (\<open>None\<close>): the empty string is falsy.
\<close>

fun truthy_flag :: "bool option \<Rightarrow> bool" where
  "truthy_flag None = False"
| "truthy_flag (Some b) = b"

fun truthy_str :: "string option \<Rightarrow> bool" where
  "truthy_str None = False"
| "truthy_str (Some s) = (s \<noteq> [])"

text \<open>
  The values that meet in the guards of \<^verbatim>\<open>previousStep\<close> and \<^verbatim>\<open>nextStep\<close>, with strict
  equality \<^verbatim>\<open>===\<close>: values of different types are never strictly equal.
\<close>

datatype jsval = JUndefined | JString string | JNumber int

fun strict_eq :: "jsval \<Rightarrow> jsval \<Rightarrow> bool" where
  "strict_eq JUndefined JUndefined = True"
| "strict_eq (JString a) (JString b) = (a = b)"
| "strict_eq (JNumber a) (JNumber b) = (a = b)"
| "strict_eq _ _ = False"

fun step_val :: "string option \<Rightarrow> jsval" where
  "step_val None = JUndefined"
| "step_val (Some s) = JString s"

text \<open>\<^verbatim>\<open>Array.prototype.indexOf\<close>: the first index holding the value, \<open>-1\<close> when absent.\<close>

fun indexOf_from :: "string list \<Rightarrow> string option \<Rightarrow> int \<Rightarrow> int" where
  "indexOf_from [] v i = - 1"
| "indexOf_from (x # xs) v i =
     (if strict_eq (JString x) (step_val v) then i else indexOf_from xs v (i + 1))"

definition indexOf :: "string list \<Rightarrow> string option \<Rightarrow> int" where
  "indexOf xs v = indexOf_from xs v 0"

text \<open>Reading \<^verbatim>\<open>xs[i]\<close>: \<^verbatim>\<open>undefined\<close> (\<open>None\<close>) outside the array.\<close>

definition array_get :: "string list \<Rightarrow> int \<Rightarrow> string option" where
  "array_get xs i = (if 0 \<le> i \<and> i < int (length xs) then Some (xs ! nat i) else None)"

section \<open>The payment form (Pay.js)\<close>

subsection \<open>Collaborators imported from lib/utils\<close>

text \<open>
  A decoded Lightning invoice, with the two fields the form reads. A route is opaque to the
  form: it is only handed on to the fee helpers.
\<close>

record invoice =
  satoshis :: jsnum
  payeeNodeKey :: string

typedecl route

datatype error = DecodeError | TypeError

text \<open>An entry of the ticker, as \<^verbatim>\<open>currentTicker[fiatCurrency]\<close>; its field \<^verbatim>\<open>last\<close> is the price.\<close>

record ticker_entry =
  lastPrice :: jsnum

text \<open>
  The functions imported from \<^verbatim>\<open>lib/utils/crypto\<close> and \<^verbatim>\<open>lib/utils/btc\<close> are not part of
  these two components; the components are parameterised by them. \<^verbatim>\<open>decodePayReq\<close> may
  throw (\<open>Inl\<close>); \<^verbatim>\<open>getFeeRange\<close> returns \<^verbatim>\<open>{ min, max }\<close>, each possibly \<^verbatim>\<open>null\<close>.
\<close>

text \<open>
  The imported tests \<^verbatim>\<open>isLn\<close> and \<^verbatim>\<open>isOnchain\<close> are the fields \<open>utils_isLn\<close> and
  \<open>utils_isOnchain\<close>: the state has flags of the same names.
\<close>

record utils =
  utils_isLn :: "string option \<Rightarrow> string \<Rightarrow> string \<Rightarrow> bool"
  utils_isOnchain :: "string option \<Rightarrow> string \<Rightarrow> string \<Rightarrow> bool"
  decodePayReq :: "string option \<Rightarrow> error + invoice"
  getMinFee :: "route list option \<Rightarrow> jsnum option"
  getMaxFee :: "route list option \<Rightarrow> jsnum option"
  getFeeRange :: "route list \<Rightarrow> jsnum option \<times> jsnum option"
  convert :: "string \<Rightarrow> string \<Rightarrow> string option \<Rightarrow> jsnum"
  satoshisToFiat :: "jsnum \<Rightarrow> ticker_entry option \<Rightarrow> jsnum"

subsection \<open>Props, state and form values\<close>

text \<open>
  The props that the modelled handlers read. A field that may be missing, \<^verbatim>\<open>null\<close> or
  \<^verbatim>\<open>undefined\<close> has an option type. In the state, \<open>currentStep\<close> is written from an array
  read and may in principle become \<^verbatim>\<open>undefined\<close>; the flags hold \<^verbatim>\<open>null\<close> or \<^verbatim>\<open>true\<close>.
\<close>

record onchain_fees =
  fastestFee :: "jsnum option"
  halfHourFee :: "jsnum option"
  hourFee :: "jsnum option"

record props =
  chain :: string
  network :: string
  channelBalance :: jsnum
  cryptoCurrency :: string
  initialPayReq :: "string option"
  isProcessing :: bool
  isQueryingRoutes :: bool
  onchainFees :: onchain_fees
  routes :: "route list option"
  walletBalance :: jsnum

record pay_state =
  currentStep :: "string option"
  previousStep :: "string option"
  isLn :: "bool option"
  isOnchain :: "bool option"
  invoice :: "invoice option"

definition initial_state :: pay_state where
  "initial_state =
     \<lparr>currentStep = Some ''address'', previousStep = None, isLn = None, isOnchain = None,
      invoice = None\<rparr>"

text \<open>
  The values of the form fields (\<open>None\<close> for a field without a value) and the part of the
  form state that the component reads; \<open>formValues\<close> is \<^verbatim>\<open>formState.values\<close> and \<open>touched\<close>
  lists the keys of \<^verbatim>\<open>formState.touched\<close>.
\<close>

record form_values =
  payReq :: "string option"
  amountCrypto :: "string option"
  amountFiat :: "string option"

record form_state =
  formValues :: form_values
  touched :: "string list"
  pristine :: bool
  invalid :: bool

subsection \<open>Effects\<close>

text \<open>
  A call of \<^verbatim>\<open>this.setState\<close> carries an object of field assignments, merged into the state.
  Calls of the callback props and of the form API are recorded in the order they are made.
\<close>

datatype assignment =
  SetCurrentStep "string option"
| SetPreviousStep "string option"
| SetIsLn "bool option"
| SetIsOnchain "bool option"
| SetInvoice "invoice option"

text \<open>The argument of \<^verbatim>\<open>sendCoins\<close>: \<^verbatim>\<open>{ value, addr, currency, satPerByte }\<close>.\<close>

record send_params =
  sc_value :: "string option"
  sc_addr :: "string option"
  sc_currency :: string
  sc_satPerByte :: "jsnum option"

datatype effect =
  SetState "assignment list"
| SendCoins send_params
| PayInvoice "string option" "jsnum option"
| QueryRoutes string jsnum
| FormReset
| FormSetValue string "string option"
| FormSetTouched string bool
| FormSubmit

fun assign :: "assignment \<Rightarrow> pay_state \<Rightarrow> pay_state" where
  "assign (SetCurrentStep v) st = st\<lparr>currentStep := v\<rparr>"
| "assign (SetPreviousStep v) st = st\<lparr>previousStep := v\<rparr>"
| "assign (SetIsLn v) st = st\<lparr>isLn := v\<rparr>"
| "assign (SetIsOnchain v) st = st\<lparr>isOnchain := v\<rparr>"
| "assign (SetInvoice v) st = st\<lparr>invoice := v\<rparr>"

definition setState :: "assignment list \<Rightarrow> pay_state \<Rightarrow> pay_state" where
  "setState as st = fold assign as st"

text \<open>The state after a handler has run: its \<^verbatim>\<open>setState\<close> calls applied in order.\<close>

fun apply_effects :: "effect list \<Rightarrow> pay_state \<Rightarrow> pay_state" where
  "apply_effects [] st = st"
| "apply_effects (SetState as # es) st = apply_effects es (setState as st)"
| "apply_effects (_ # es) st = apply_effects es st"

subsection \<open>The step wizard\<close>

definition steps :: "pay_state \<Rightarrow> string list" where
  "steps st =
     (if truthy_flag (isLn st) then [''address'', ''summary'']
      else if truthy_flag (isOnchain st) then [''address'', ''amount'', ''summary'']
      else [''address''])"

text \<open>
  The handler \<^verbatim>\<open>previousStep\<close> is named \<open>previousStep_handler\<close>, since \<open>previousStep\<close> is
  also a field of the state. The local constant that both handlers call \<^verbatim>\<open>nextStep\<close> is
  an index into \<^verbatim>\<open>this.steps()\<close>, written \<open>nextIndex\<close> here; the guard compares
  \<open>currentStep\<close> with it by \<^verbatim>\<open>!==\<close>.
\<close>

definition previousStep_handler :: "pay_state \<Rightarrow> effect list" where
  "previousStep_handler st =
     (let nextIndex = max (indexOf (steps st) (currentStep st) - 1) 0
      in if \<not> strict_eq (step_val (currentStep st)) (JNumber nextIndex)
         then [SetState [SetCurrentStep (array_get (steps st) nextIndex),
                         SetPreviousStep (currentStep st)]]
         else [])"

definition nextStep :: "pay_state \<Rightarrow> effect list" where
  "nextStep st =
     (let nextIndex = min (indexOf (steps st) (currentStep st) + 1) (int (length (steps st)) - 1)
      in if \<not> strict_eq (step_val (currentStep st)) (JNumber nextIndex)
         then [SetState [SetCurrentStep (array_get (steps st) nextIndex),
                         SetPreviousStep (currentStep st)]]
         else [])"

subsection \<open>Classification of the payReq field\<close>

text \<open>
  The handler starts from \<^verbatim>\<open>{ isLn: null, isOnchain: null, invoice: null }\<close>, fills in what
  it finds and passes the object to \<^verbatim>\<open>setState\<close>; when \<^verbatim>\<open>decodePayReq\<close> throws it returns
  from the \<^verbatim>\<open>catch\<close> block before that call.
\<close>

definition handlePayReqChange :: "utils \<Rightarrow> props \<Rightarrow> form_values \<Rightarrow> effect list" where
  "handlePayReqChange lib p vals =
     (let pr = payReq vals
      in if utils_isLn lib pr (chain p) (network p) then
           (case decodePayReq lib pr of
              Inl e \<Rightarrow> []
            | Inr decoded \<Rightarrow>
                [SetState [SetIsLn (Some True), SetIsOnchain None, SetInvoice (Some decoded)]])
         else if utils_isOnchain lib pr (chain p) (network p) then
           [SetState [SetIsLn None, SetIsOnchain (Some True), SetInvoice None]]
         else [SetState [SetIsLn None, SetIsOnchain None, SetInvoice None]])"

subsection \<open>Submission\<close>

definition onSubmit :: "utils \<Rightarrow> props \<Rightarrow> pay_state \<Rightarrow> form_values \<Rightarrow> effect list" where
  "onSubmit lib p st vals =
     (let feeLimit = getMaxFee lib (routes p)
      in if currentStep st = Some ''summary'' then
           (if truthy_flag (isOnchain st)
            then [SendCoins \<lparr>sc_value = amountCrypto vals, sc_addr = payReq vals,
                             sc_currency = cryptoCurrency p,
                             sc_satPerByte = fastestFee (onchainFees p)\<rparr>]
            else [PayInvoice (payReq vals) feeLimit])
         else nextStep st)"

subsection \<open>Reacting to an update\<close>

text \<open>
  \<^verbatim>\<open>componentDidUpdate\<close> reads the state once, on entry; the \<^verbatim>\<open>setState\<close> calls made by
  the handlers it invokes take effect after it returns. After \<^verbatim>\<open>reset\<close> and
  \<^verbatim>\<open>setValue('payReq', initialPayReq)\<close> the form's payReq field holds \<^verbatim>\<open>initialPayReq\<close>.
\<close>

definition componentDidUpdate ::
  "utils \<Rightarrow> props \<Rightarrow> props \<Rightarrow> pay_state \<Rightarrow> pay_state \<Rightarrow> form_state \<Rightarrow> effect list" where
  "componentDidUpdate lib p prevProps prevState st form =
     (if truthy_str (initialPayReq p) \<and> initialPayReq p \<noteq> initialPayReq prevProps
      then [FormReset, FormSetValue ''payReq'' (initialPayReq p)]
             @ handlePayReqChange lib p ((formValues form)\<lparr>payReq := initialPayReq p\<rparr>)
      else [])
     @ (if currentStep st \<noteq> currentStep prevState \<and> currentStep st = Some ''address''
        then map (\<lambda>field. FormSetTouched field False) (touched form)
        else [])
     @ (if truthy_flag (isOnchain st) \<and> isOnchain st \<noteq> isOnchain prevState
        then [FormSubmit]
        else [])
     @ (if truthy_flag (isLn st) \<and> isLn st \<noteq> isLn prevState
        then FormSubmit #
               (case invoice st of
                  None \<Rightarrow> []
                | Some i \<Rightarrow> [QueryRoutes (payeeNodeKey i) (satoshis i)])
        else [])"

subsection \<open>Rendering\<close>

text \<open>
  Of the rendered form, the model keeps what \<^verbatim>\<open>render\<close> decides: the header type, the
  summary, the two error messages and the props of the buttons. \<^verbatim>\<open>routes || []\<close> replaces
  a missing route list by the empty one where \<open>hasRoute\<close> is computed.
\<close>

definition hasRoute :: "utils \<Rightarrow> props \<Rightarrow> pay_state \<Rightarrow> bool" where
  "hasRoute lib p st =
     (if truthy_flag (isLn st) \<and> currentStep st = Some ''summary'' then
        (case getFeeRange lib (case routes p of None \<Rightarrow> [] | Some rs \<Rightarrow> rs) of
           (mn, mx) \<Rightarrow> if mn = None \<or> mx = None then False else True)
      else True)"

definition hasEnoughFunds :: "utils \<Rightarrow> props \<Rightarrow> pay_state \<Rightarrow> form_state \<Rightarrow> bool" where
  "hasEnoughFunds lib p st form =
     (case (truthy_flag (isLn st), invoice st) of
        (True, Some i) \<Rightarrow> js_le (satoshis i) (channelBalance p)
      | _ \<Rightarrow>
        if truthy_flag (isOnchain st)
        then js_le (convert lib (cryptoCurrency p) ''sats'' (amountCrypto (formValues form)))
               (walletBalance p)
        else True)"

text \<open>
  \<^verbatim>\<open>renderSummary\<close> reads \<^verbatim>\<open>routes.length\<close> without such a guard: with \<^verbatim>\<open>routes\<close> equal to
  \<^verbatim>\<open>null\<close> this throws a TypeError, and so does \<^verbatim>\<open>render\<close>, which always calls it. The
  summary is shown on the summary step (the transition that fades it in and out is not
  modelled): the on-chain one (amount in satoshis and address)
  when \<open>isOnchain\<close> is set, the Lightning one (fee bounds and payReq) otherwise, because the
  \<^verbatim>\<open>isLn\<close> tested there is not the state flag, which \<^verbatim>\<open>renderSummary\<close> does not read, but the
  imported function, which is always truthy.
\<close>

datatype summary_view =
  SummaryOnChain jsnum "string option"
| SummaryLightning "jsnum option" "jsnum option" "string option"

definition renderSummary ::
  "utils \<Rightarrow> props \<Rightarrow> pay_state \<Rightarrow> form_state \<Rightarrow> error + summary_view option" where
  "renderSummary lib p st form =
     (case routes p of
        None \<Rightarrow> Inl TypeError
      | Some rs \<Rightarrow>
          (let minFee = (if length rs \<noteq> 0 then getMinFee lib (Some rs) else None);
               maxFee = (if length rs \<noteq> 0 then getMaxFee lib (Some rs) else None)
           in Inr (if currentStep st = Some ''summary'' then
                     (if truthy_flag (isOnchain st)
                      then Some (SummaryOnChain
                                   (convert lib (cryptoCurrency p) ''sats''
                                      (amountCrypto (formValues form)))
                                   (payReq (formValues form)))
                      else Some (SummaryLightning minFee maxFee (payReq (formValues form))))
                   else None)))"

record pay_view =
  headerType :: "string option"
  summary :: "summary_view option"
  errorNoRoute :: bool
  errorNotEnoughFunds :: bool
  buttonsDisabled :: bool
  buttonsShowBack :: bool
  buttonsShowSubmit :: bool

definition render :: "utils \<Rightarrow> props \<Rightarrow> pay_state \<Rightarrow> form_state \<Rightarrow> error + pay_view" where
  "render lib p st form =
     (let showBack = (currentStep st \<noteq> Some ''address'');
          showSubmit = (currentStep st \<noteq> Some ''address''
                          \<or> (truthy_flag (isOnchain st) \<or> truthy_flag (isLn st)))
      in case renderSummary lib p st form of
           Inl e \<Rightarrow> Inl e
         | Inr s \<Rightarrow>
             Inr \<lparr>headerType =
                    (if truthy_flag (isLn st) then Some ''offchain''
                     else if truthy_flag (isOnchain st) then Some ''onchain'' else None),
                  summary = s,
                  errorNoRoute =
                    (currentStep st = Some ''summary'' \<and> \<not> isQueryingRoutes p
                       \<and> \<not> hasRoute lib p st),
                  errorNotEnoughFunds =
                    (currentStep st = Some ''summary'' \<and> \<not> hasEnoughFunds lib p st form),
                  buttonsDisabled =
                    (pristine form \<or> invalid form \<or> isProcessing p
                       \<or> (currentStep st = Some ''summary''
                            \<and> (\<not> hasRoute lib p st \<or> \<not> hasEnoughFunds lib p st form))),
                  buttonsShowBack = showBack,
                  buttonsShowSubmit = showSubmit\<rparr>)"

subsection \<open>States the form can be in\<close>

text \<open>
  The component starts in \<open>initial_state\<close>, and its state changes only through the
  \<^verbatim>\<open>setState\<close> calls of its handlers.
\<close>

inductive reachable :: "utils \<Rightarrow> pay_state \<Rightarrow> bool" for lib :: utils where
  reach_init: "reachable lib initial_state"
| reach_payReq:
    "reachable lib st \<Longrightarrow> reachable lib (apply_effects (handlePayReqChange lib p vals) st)"
| reach_next: "reachable lib st \<Longrightarrow> reachable lib (apply_effects (nextStep st) st)"
| reach_previous:
    "reachable lib st \<Longrightarrow> reachable lib (apply_effects (previousStep_handler st) st)"
| reach_submit:
    "reachable lib st \<Longrightarrow> reachable lib (apply_effects (onSubmit lib p st vals) st)"
| reach_update:
    "reachable lib st \<Longrightarrow>
     reachable lib (apply_effects (componentDidUpdate lib p prevProps prevState st form) st)"

code_pred reachable .

section \<open>The wallet dashboard (Wallet.js)\<close>

subsection \<open>parseInt and parseFloat\<close>

definition isWhiteSpace :: "char \<Rightarrow> bool" where
  "isWhiteSpace c = (c \<in> set [CHR 0x09, CHR 0x0A, CHR 0x0B, CHR 0x0C, CHR 0x0D, CHR 0x20])"

definition isDigit :: "char \<Rightarrow> bool" where
  "isDigit c = (48 \<le> (of_char c :: nat) \<and> (of_char c :: nat) \<le> 57)"

definition digitsValue :: "string \<Rightarrow> nat" where
  "digitsValue ds = foldl (\<lambda>acc c. 10 * acc + (of_char c - 48)) 0 ds"

text \<open>An optional sign: whether it is \<^verbatim>\<open>-\<close>, and the rest of the string.\<close>

fun takeSign :: "string \<Rightarrow> bool \<times> string" where
  "takeSign [] = (False, [])"
| "takeSign (c # cs) =
     (if c = CHR ''-'' then (True, cs) else if c = CHR ''+'' then (False, cs) else (False, c # cs))"

text \<open>
  \<^verbatim>\<open>parseInt(s, 10)\<close>: leading white space is skipped, then an optional sign, then the longest
  run of decimal digits; \<open>NaN\<close> when there is no digit, else the double nearest to the
  integer read. Only the ASCII white space is modelled.
\<close>

definition parseInt10 :: "string \<Rightarrow> jsnum" where
  "parseInt10 s =
     (case takeSign (dropWhile isWhiteSpace s) of
        (neg, rest) \<Rightarrow>
          (let z = takeWhile isDigit rest
           in if z = [] then NaN
              else round_double (of_int ((if neg then - 1 else 1) * int (digitsValue z)))))"

text \<open>
  The exponent part of a decimal literal: \<^verbatim>\<open>e\<close> or \<^verbatim>\<open>E\<close>, an optional sign and at least
  one digit; \<open>0\<close> when the string does not start with one.
\<close>

fun exponentPart :: "string \<Rightarrow> int" where
  "exponentPart [] = 0"
| "exponentPart (c # cs) =
     (if c = CHR ''e'' \<or> c = CHR ''E'' then
        (case takeSign cs of
           (neg, rest) \<Rightarrow>
             (let ds = takeWhile isDigit rest
              in if ds = [] then 0 else (if neg then - 1 else 1) * int (digitsValue ds)))
      else 0)"

definition scale10 :: "rat \<Rightarrow> int \<Rightarrow> rat" where
  "scale10 m e = (if 0 \<le> e then m * 10 ^ nat e else m / 10 ^ nat (- e))"

text \<open>
  \<^verbatim>\<open>parseFloat(s)\<close>: leading white space is skipped, then the longest prefix that is a
  decimal literal (sign, \<^verbatim>\<open>Infinity\<close> or digits with an optional fraction and exponent) is
  read; \<open>NaN\<close> when there is none, else the double nearest to the value of the literal.
\<close>

definition parseFloat :: "string \<Rightarrow> jsnum" where
  "parseFloat s =
     (case takeSign (dropWhile isWhiteSpace s) of
        (neg, rest) \<Rightarrow>
          if take 8 rest = ''Infinity'' then (if neg then NegInf else PosInf)
          else
            (let ip = takeWhile isDigit rest;
                 r1 = dropWhile isDigit rest;
                 fp = (case r1 of [] \<Rightarrow> []
                       | c # cs \<Rightarrow> if c = CHR ''.'' then takeWhile isDigit cs else []);
                 r2 = (case r1 of [] \<Rightarrow> []
                       | c # cs \<Rightarrow> if c = CHR ''.'' then dropWhile isDigit cs else r1)
             in if ip = [] \<and> fp = [] then NaN
                else
                  (let m = of_nat (digitsValue ip) + of_nat (digitsValue fp) / 10 ^ length fp
                   in round_double (scale10 (if neg then - m else m) (exponentPart r2)))))"

subsection \<open>The component\<close>

text \<open>
  The props of the dashboard. The two balances arrive as strings and are parsed by the
  component; \<open>info_data_testnet\<close> is the truthiness of \<^verbatim>\<open>info.data.testnet\<close>.
\<close>

record balance =
  bal_walletBalance :: string
  bal_channelBalance :: string

record ticker =
  currency :: "string option"
  fiatTicker :: string

record wallet_props =
  balance :: balance
  info_data_testnet :: bool
  ticker :: ticker
  currentTicker :: "string \<rightharpoonup> ticker_entry"
  currencyFilters :: "string list"

datatype wallet_action = OpenReceiveModal | OpenPayForm | OpenRequestForm

text \<open>
  What the dashboard shows: the testnet label, the \<^verbatim>\<open>Value\<close> element (amount and currency),
  the dropdown, the fiat line (\<open>None\<close> when it is not rendered) and the buttons with the
  callbacks they are wired to.
\<close>

record wallet_view =
  showTestnet :: bool
  valueAmount :: jsnum
  valueCurrency :: "string option"
  valueFiatTicker :: string
  dropdownItems :: "string list"
  fiatLine :: "jsnum option"
  buttons :: "wallet_action list"

definition Wallet :: "utils \<Rightarrow> wallet_props \<Rightarrow> wallet_view option" where
  "Wallet lib p =
     (if \<not> truthy_str (currency (ticker p)) then None
      else
        (let fiatAmount =
               satoshisToFiat lib
                 (js_add (parseInt10 (bal_walletBalance (balance p)))
                    (parseInt10 (bal_channelBalance (balance p))))
                 (currentTicker p (fiatTicker (ticker p)))
         in Some \<lparr>showTestnet = info_data_testnet p,
                   valueAmount =
                     js_add (parseFloat (bal_walletBalance (balance p)))
                       (parseFloat (bal_channelBalance (balance p))),
                   valueCurrency = currency (ticker p),
                   valueFiatTicker = fiatTicker (ticker p),
                   dropdownItems = currencyFilters p,
                   fiatLine = (if toBoolean_num fiatAmount then Some fiatAmount else None),
                   buttons = [OpenReceiveModal, OpenPayForm, OpenRequestForm]\<rparr>))"

section \<open>Observations on effects and states\<close>

fun is_setState :: "effect \<Rightarrow> bool" where
  "is_setState (SetState _) = True"
| "is_setState _ = False"

fun is_payment :: "effect \<Rightarrow> bool" where
  "is_payment (SendCoins _) = True"
| "is_payment (PayInvoice _ _) = True"
| "is_payment _ = False"

fun is_queryRoutes :: "effect \<Rightarrow> bool" where
  "is_queryRoutes (QueryRoutes _ _) = True"
| "is_queryRoutes _ = False"

text \<open>Exactly one of the two classification flags is set.\<close>

definition exactly_one_flag :: "pay_state \<Rightarrow> bool" where
  "exactly_one_flag st \<longleftrightarrow>
     (truthy_flag (isLn st) \<and> \<not> truthy_flag (isOnchain st))
     \<or> (truthy_flag (isOnchain st) \<and> \<not> truthy_flag (isLn st))"

text \<open>
  The run of \<^verbatim>\<open>handlePayReqChange\<close> that ends in the \<^verbatim>\<open>catch\<close> block: the payReq is
  recognised as a Lightning request and \<^verbatim>\<open>decodePayReq\<close> throws.
\<close>

definition decode_fails :: "utils \<Rightarrow> props \<Rightarrow> form_values \<Rightarrow> bool" where
  "decode_fails lib p vals \<longleftrightarrow>
     utils_isLn lib (payReq vals) (chain p) (network p) \<and> isl (decodePayReq lib (payReq vals))"

text \<open>
  The condition under which the "no route" message is expected: summary step, Lightning
  payment, no route query under way, and a fee range without minimum or maximum.
\<close>

definition spec_noRoute :: "utils \<Rightarrow> props \<Rightarrow> pay_state \<Rightarrow> bool" where
  "spec_noRoute lib p st \<longleftrightarrow>
     currentStep st = Some ''summary'' \<and> truthy_flag (isLn st) \<and> \<not> isQueryingRoutes p
     \<and> (fst (getFeeRange lib (case routes p of None \<Rightarrow> [] | Some rs \<Rightarrow> rs)) = None
          \<or> snd (getFeeRange lib (case routes p of None \<Rightarrow> [] | Some rs \<Rightarrow> rs)) = None)"

text \<open>A balance written as a non-empty run of decimal digits.\<close>

definition digitString :: "string \<Rightarrow> bool" where
  "digitString s \<longleftrightarrow> s \<noteq> [] \<and> list_all isDigit s"

text \<open>
  What a render shows of a part of the view: \<open>None\<close> when \<^verbatim>\<open>render\<close> throws and nothing is
  rendered.
\<close>

definition rendered :: "(pay_view \<Rightarrow> 'a) \<Rightarrow> error + pay_view \<Rightarrow> 'a option" where
  "rendered f r = (case r of Inl e \<Rightarrow> None | Inr v \<Rightarrow> Some (f v))"

text \<open>The invariant of the reachable states: a known step, and never both flags.\<close>

definition step_inv :: "pay_state \<Rightarrow> bool" where
  "step_inv st \<longleftrightarrow>
     currentStep st \<in> {Some ''address'', Some ''amount'', Some ''summary''}
     \<and> \<not> (truthy_flag (isLn st) \<and> truthy_flag (isOnchain st))"

section \<open>Example inputs\<close>

text \<open>
  A concrete instance of the imported helpers, for evaluating the components at explicit
  inputs. It stands in for \<^verbatim>\<open>lib/utils\<close> and makes no claim to be that library: a string
  starting with \<^verbatim>\<open>ln\<close> counts as a Lightning request, and decodes when it starts with
  \<^verbatim>\<open>lnbc\<close> followed by an amount; a string starting with \<^verbatim>\<open>bc1\<close> counts as an on-chain
  address; an empty route list has no fees.
\<close>

definition example_utils :: utils where
  "example_utils =
     \<lparr>utils_isLn = (\<lambda>pr c n. case pr of None \<Rightarrow> False | Some s \<Rightarrow> take 2 s = ''ln''),
      utils_isOnchain = (\<lambda>pr c n. case pr of None \<Rightarrow> False | Some s \<Rightarrow> take 3 s = ''bc1''),
      decodePayReq =
        (\<lambda>pr. case pr of
                None \<Rightarrow> Inl DecodeError
              | Some s \<Rightarrow>
                  if take 4 s = ''lnbc''
                  then Inr \<lparr>satoshis = parseInt10 (drop 4 s), payeeNodeKey = ''02abc''\<rparr>
                  else Inl DecodeError),
      getMinFee = (\<lambda>rs. case rs of Some (r # _) \<Rightarrow> Some (Fin 0) | _ \<Rightarrow> None),
      getMaxFee = (\<lambda>rs. case rs of Some (r # _) \<Rightarrow> Some (Fin 1) | _ \<Rightarrow> None),
      getFeeRange = (\<lambda>rs. case rs of [] \<Rightarrow> (None, None) | _ \<Rightarrow> (Some (Fin 0), Some (Fin 1))),
      convert = (\<lambda>src dst v. case v of None \<Rightarrow> NaN | Some s \<Rightarrow> parseFloat s),
      satoshisToFiat =
        (\<lambda>sats e. case (sats, e) of
                     (Fin q, Some t) \<Rightarrow>
                       (case lastPrice t of Fin pr \<Rightarrow> round_double (q * pr / 100000000) | x \<Rightarrow> x)
                   | _ \<Rightarrow> NaN)\<rparr>"

definition example_props :: props where
  "example_props =
     \<lparr>chain = ''bitcoin'', network = ''mainnet'', channelBalance = Fin 1000,
      cryptoCurrency = ''sats'', initialPayReq = None, isProcessing = False,
      isQueryingRoutes = False,
      onchainFees = \<lparr>fastestFee = Some (Fin 20), halfHourFee = Some (Fin 10),
                      hourFee = Some (Fin 5)\<rparr>,
      routes = Some [], walletBalance = Fin 5000\<rparr>"

definition form_with :: "string \<Rightarrow> string option \<Rightarrow> form_state" where
  "form_with pr amount =
     \<lparr>formValues = \<lparr>payReq = Some pr, amountCrypto = amount, amountFiat = None\<rparr>,
      touched = [''payReq''], pristine = False, invalid = False\<rparr>"

definition ln_state :: "string \<Rightarrow> pay_state" where
  "ln_state step =
     \<lparr>currentStep = Some step, previousStep = Some ''address'', isLn = Some True,
      isOnchain = None, invoice = Some \<lparr>satoshis = Fin 1500, payeeNodeKey = ''02abc''\<rparr>\<rparr>"

definition onchain_state :: "string \<Rightarrow> pay_state" where
  "onchain_state step =
     \<lparr>currentStep = Some step, previousStep = Some ''address'', isLn = None,
      isOnchain = Some True, invoice = None\<rparr>"

text \<open>The states reached from the initial one by entering an address or an invoice.\<close>

definition onchain_entered :: pay_state where
  "onchain_entered =
     apply_effects
       (handlePayReqChange example_utils example_props (formValues (form_with ''bc1q'' None)))
       initial_state"

definition ln_entered :: pay_state where
  "ln_entered =
     apply_effects
       (handlePayReqChange example_utils example_props (formValues (form_with ''lnbc1500'' None)))
       initial_state"

definition example_wallet_props :: "string option \<Rightarrow> string \<Rightarrow> string \<Rightarrow> wallet_props" where
  "example_wallet_props cur wb cb =
     \<lparr>balance = \<lparr>bal_walletBalance = wb, bal_channelBalance = cb\<rparr>,
      info_data_testnet = False,
      ticker = \<lparr>currency = cur, fiatTicker = ''USD''\<rparr>,
      currentTicker = [''USD'' \<mapsto> \<lparr>lastPrice = Fin 50000\<rparr>],
      currencyFilters = [''btc'', ''bits'', ''sats'']\<rparr>"

section \<open>Rounding and parsing\<close>

lemma pow2_step: "pow2 (e - 1) * 2 = pow2 e"
proof (cases "1 \<le> e")
  case True
  then have "nat e = Suc (nat (e - 1))" by simp
  with True show ?thesis by (simp add: pow2_def)
next
  case False
  then have "nat (1 - e) = Suc (nat (- e))" by simp
  with False show ?thesis by (simp add: pow2_def)
qed

lemma scale_down_small: "a < 2 ^ 53 \<Longrightarrow> scale_down a e = (a, e)"
  by (subst scale_down.simps) simp

lemma scale_up_invariant:
  "scale_up a e = (a', e') \<Longrightarrow> a' * pow2 e' = a * pow2 e \<and> (a \<in> \<int> \<longrightarrow> a' \<in> \<int>)"
proof (induction a e rule: scale_up.induct)
  case (1 a e)
  show ?case
  proof (cases "a < 2 ^ 52 \<and> - 1074 < e")
    case True
    with "1.prems" have "scale_up (a * 2) (e - 1) = (a', e')"
      by (subst (asm) scale_up.simps) (auto split: if_splits)
    from "1.IH" [OF True this] have "a' * pow2 e' = a * 2 * pow2 (e - 1)"
      and "a * 2 \<in> \<int> \<longrightarrow> a' \<in> \<int>" by simp_all
    moreover have "a * 2 * pow2 (e - 1) = a * pow2 e"
      using pow2_step [of e] by (simp add: mult.assoc mult.commute)
    ultimately show ?thesis by auto
  next
    case False
    with "1.prems" have "(a', e') = (a, e)"
      by (subst (asm) scale_up.simps) (auto split: if_splits)
    then show ?thesis by simp
  qed
qed

lemma round_half_even_int: "x \<in> \<int> \<Longrightarrow> of_int (round_half_even x) = x"
  by (auto simp: round_half_even_def Let_def elim!: Ints_cases)

lemma round_magnitude_int:
  assumes "a \<in> \<int>" and "a < 2 ^ 53"
  shows "round_magnitude a = a"
proof -
  obtain a' e' where su: "scale_up a 0 = (a', e')" by (cases "scale_up a 0")
  from scale_up_invariant [OF su] assms(1) have "a' * pow2 e' = a" and "a' \<in> \<int>"
    by (simp_all add: pow2_def)
  then show ?thesis
    by (simp add: round_magnitude_def scale_down_small [OF assms(2)] su round_half_even_int)
qed

lemma round_double_nat:
  assumes "n < 2 ^ 53"
  shows "round_double (of_nat n) = Fin (of_nat n)"
proof (cases "n = 0")
  case True
  then show ?thesis by (simp add: round_double_def)
next
  case False
  from assms have "(of_nat n :: rat) < of_nat (2 ^ 53)" by (simp only: of_nat_less_iff)
  then have lt: "(of_nat n :: rat) < 2 ^ 53" by simp
  have "round_magnitude (of_nat n) = of_nat n"
    by (rule round_magnitude_int [OF _ lt]) simp
  moreover have "(of_nat n :: rat) < 2 ^ 1024"
    using lt by (rule less_trans) simp
  ultimately show ?thesis using False by (simp add: round_double_def)
qed


lemma digit_not_white: "isDigit c \<Longrightarrow> \<not> isWhiteSpace c"
  by (auto simp: isDigit_def isWhiteSpace_def)

lemma digit_not_sign: "isDigit c \<Longrightarrow> c \<noteq> CHR ''-'' \<and> c \<noteq> CHR ''+''"
  by (auto simp: isDigit_def)

lemma digit_not_I: "isDigit c \<Longrightarrow> c \<noteq> CHR ''I''"
  by (auto simp: isDigit_def)

lemma digitString_prefix:
  assumes "digitString s"
  shows "takeSign (dropWhile isWhiteSpace s) = (False, s)"
    and "take 8 s \<noteq> ''Infinity''"
    and "takeWhile isDigit s = s"
    and "dropWhile isDigit s = []"
proof -
  from assms obtain c cs where s: "s = c # cs" and c: "isDigit c" and cs: "list_all isDigit cs"
    by (cases s) (auto simp: digitString_def)
  show "takeSign (dropWhile isWhiteSpace s) = (False, s)"
    using digit_not_white [OF c] digit_not_sign [OF c] by (simp add: s)
  show "take 8 s \<noteq> ''Infinity''"
    using digit_not_I [OF c] by (auto simp: s)
  show "takeWhile isDigit s = s"
    using c cs by (simp add: s takeWhile_eq_all_conv list_all_iff)
  show "dropWhile isDigit s = []"
    using c cs by (simp add: s dropWhile_eq_Nil_conv list_all_iff)
qed

lemma parseInt10_digitString:
  assumes "digitString s" and "digitsValue s < 2 ^ 53"
  shows "parseInt10 s = Fin (of_nat (digitsValue s))"
proof -
  from assms(1) have "s \<noteq> []" by (simp add: digitString_def)
  then show ?thesis
    by (simp add: parseInt10_def Let_def digitString_prefix [OF assms(1)]
          round_double_nat [OF assms(2)])
qed



lemma scale_up_stop: "\<not> (a < 2 ^ 52 \<and> - 1074 < e) \<Longrightarrow> scale_up a e = (a, e)"
  by (subst scale_up.simps) (auto split: if_splits)

lemma floor_numeral_quotient:
  "\<lfloor>numeral a / numeral b :: rat\<rfloor> = numeral a div numeral b"
  using floor_divide_of_int_eq [of "numeral a" "numeral b", where ?'a = rat] by simp

lemma scale_up_shift:
  "0 < a \<Longrightarrow> a * 2 ^ k < 2 ^ 53 \<Longrightarrow> - 1074 \<le> e - int k \<Longrightarrow>
   scale_up a e = scale_up (a * 2 ^ k) (e - int k)"
proof (induction k arbitrary: a e)
  case 0
  show ?case by simp
next
  case (Suc k)
  have "a * 2 * 1 \<le> a * 2 * 2 ^ k"
    using Suc.prems(1) by (intro mult_left_mono) simp_all
  with Suc.prems(2) have "a * 2 < 2 ^ 53" by (simp add: mult.assoc)
  then have "a < 2 ^ 52" by simp
  moreover from Suc.prems(3) have "- 1074 < e" by simp
  ultimately have "scale_up a e = scale_up (a * 2) (e - 1)"
    by (subst scale_up.simps) simp
  also have "\<dots> = scale_up (a * 2 * 2 ^ k) (e - 1 - int k)"
    using Suc.prems by (intro Suc.IH) (simp_all add: mult.assoc)
  also have "a * 2 * 2 ^ k = a * 2 ^ Suc k" by simp
  also have "e - 1 - int k = e - int (Suc k)" by simp
  finally show ?case .
qed



lemma round_tenth: "round_double (1 / 10) = Fin (3602879701896397 / 36028797018963968)"
proof -
  have "scale_up (1 / 10) 0 = scale_up (1 / 10 * 2 ^ 56) (0 - int 56)"
    by (rule scale_up_shift) simp_all
  also have "\<dots> = (1 / 10 * 2 ^ 56, - 56)"
    by (simp add: scale_up_stop)
  finally show ?thesis
    by (simp add: round_double_def round_magnitude_def scale_down_small round_half_even_def
          pow2_def Let_def floor_numeral_quotient)
qed

lemma round_fifth: "round_double (2 / 10) = Fin (3602879701896397 / 18014398509481984)"
proof -
  have "scale_up (2 / 10) 0 = scale_up (2 / 10 * 2 ^ 55) (0 - int 55)"
    by (rule scale_up_shift) simp_all
  also have "\<dots> = (2 / 10 * 2 ^ 55, - 55)"
    by (simp add: scale_up_stop)
  finally show ?thesis
    by (simp add: round_double_def round_magnitude_def scale_down_small round_half_even_def
          pow2_def Let_def floor_numeral_quotient)
qed

lemma round_sum:
  "round_double (3602879701896397 / 36028797018963968 + 3602879701896397 / 18014398509481984)
     = Fin (5404319552844596 / 18014398509481984)"
proof -
  let ?q = "3602879701896397 / 36028797018963968 + 3602879701896397 / 18014398509481984 :: rat"
  have "scale_up ?q 0 = scale_up (?q * 2 ^ 54) (0 - int 54)"
    by (rule scale_up_shift) simp_all
  also have "\<dots> = (?q * 2 ^ 54, - 54)"
    by (simp add: scale_up_stop)
  finally show ?thesis
    by (simp add: round_double_def round_magnitude_def scale_down_small round_half_even_def
          pow2_def Let_def floor_numeral_quotient)
qed

lemma parseInt10_1500: "parseInt10 ''1500'' = Fin 1500"
  using parseInt10_digitString [of "''1500''"]
  by (simp add: digitString_def isDigit_def digitsValue_def)




text \<open>
  Rounding at work: \<^verbatim>\<open>0.1 + 0.2\<close> is the double \<open>0.30000000000000004\<close>, not three tenths.
\<close>

lemma parseFloat_tenth: "parseFloat ''0.1'' = Fin (3602879701896397 / 36028797018963968)"
  using round_tenth
  by (simp add: parseFloat_def Let_def isWhiteSpace_def isDigit_def digitsValue_def scale10_def)

lemma parseFloat_fifth: "parseFloat ''0.2'' = Fin (3602879701896397 / 18014398509481984)"
  using round_fifth
  by (simp add: parseFloat_def Let_def isWhiteSpace_def isDigit_def digitsValue_def scale10_def)

lemma js_add_rounds:
  "js_add (parseFloat ''0.1'') (parseFloat ''0.2'') = Fin (5404319552844596 / 18014398509481984)"
  by (simp only: parseFloat_tenth parseFloat_fifth js_add.simps round_sum)

section \<open>Properties of the step wizard\<close>

lemma strict_eq_step_number: "strict_eq (step_val v) (JNumber n) = False"
  by (cases v) simp_all

lemma strict_eq_string_step: "strict_eq (JString x) (step_val v) = (v = Some x)"
  by (cases v) auto

lemma indexOf_from_bounds:
  "indexOf_from xs v i = - 1 \<or> (i \<le> indexOf_from xs v i \<and> indexOf_from xs v i < i + int (length xs))"
proof (induction xs arbitrary: i)
  case Nil
  show ?case by simp
next
  case (Cons x xs)
  from Cons.IH [of "i + 1"] show ?case by auto
qed

lemma indexOf_bounds: "- 1 \<le> indexOf xs v \<and> indexOf xs v < int (length xs)"
  using indexOf_from_bounds [of xs v 0] by (auto simp: indexOf_def)

lemma array_get_member:
  "0 \<le> i \<Longrightarrow> i < int (length xs) \<Longrightarrow> array_get xs i \<in> Some ` set xs"
  by (simp add: array_get_def)

lemma steps_cases:
  "steps st = [''address'', ''summary''] \<or> steps st = [''address'', ''amount'', ''summary'']
     \<or> steps st = [''address'']"
  by (simp add: steps_def)

lemma steps_nonempty: "0 < length (steps st)"
  using steps_cases [of st] by auto

lemma nextStep_effects:
  "nextStep st =
     [SetState [SetCurrentStep (array_get (steps st)
                  (min (indexOf (steps st) (currentStep st) + 1) (int (length (steps st)) - 1))),
                SetPreviousStep (currentStep st)]]"
  by (simp add: nextStep_def strict_eq_step_number Let_def)

lemma previousStep_effects:
  "previousStep_handler st =
     [SetState [SetCurrentStep (array_get (steps st)
                  (max (indexOf (steps st) (currentStep st) - 1) 0)),
                SetPreviousStep (currentStep st)]]"
  by (simp add: previousStep_handler_def strict_eq_step_number Let_def)

lemma steps_frame:
  "steps (st\<lparr>currentStep := a, previousStep := b\<rparr>) = steps st"
  by (simp add: steps_def)

lemma after_nextStep:
  "apply_effects (nextStep st) st =
     st\<lparr>currentStep := array_get (steps st)
                          (min (indexOf (steps st) (currentStep st) + 1) (int (length (steps st)) - 1)),
        previousStep := currentStep st\<rparr>"
  by (simp add: nextStep_effects setState_def)

lemma after_previousStep:
  "apply_effects (previousStep_handler st) st =
     st\<lparr>currentStep := array_get (steps st) (max (indexOf (steps st) (currentStep st) - 1) 0),
        previousStep := currentStep st\<rparr>"
  by (simp add: previousStep_effects setState_def)

lemma nextStep_member:
  "currentStep (apply_effects (nextStep st) st) \<in> Some ` set (steps st)"
proof -
  let ?i = "min (indexOf (steps st) (currentStep st) + 1) (int (length (steps st)) - 1)"
  have "0 \<le> ?i" "?i < int (length (steps st))"
    using indexOf_bounds [of "steps st" "currentStep st"] steps_nonempty [of st] by auto
  then have "array_get (steps st) ?i \<in> Some ` set (steps st)"
    by (rule array_get_member)
  then show ?thesis by (simp add: after_nextStep)
qed

lemma previousStep_member:
  "currentStep (apply_effects (previousStep_handler st) st) \<in> Some ` set (steps st)"
proof -
  let ?i = "max (indexOf (steps st) (currentStep st) - 1) 0"
  have "0 \<le> ?i" "?i < int (length (steps st))"
    using indexOf_bounds [of "steps st" "currentStep st"] steps_nonempty [of st] by auto
  then have "array_get (steps st) ?i \<in> Some ` set (steps st)"
    by (rule array_get_member)
  then show ?thesis by (simp add: after_previousStep)
qed

lemma steps_subset: "set (steps st) \<subseteq> {''address'', ''amount'', ''summary''}"
  using steps_cases [of st] by auto

lemma nextStep_at_last:
  "currentStep st = Some (last (steps st)) \<Longrightarrow>
   array_get (steps st) (min (indexOf (steps st) (currentStep st) + 1) (int (length (steps st)) - 1))
     = currentStep st"
  using steps_cases [of st] by (auto simp: indexOf_def array_get_def)

lemma previousStep_at_first:
  "currentStep st = Some (hd (steps st)) \<Longrightarrow>
   array_get (steps st) (max (indexOf (steps st) (currentStep st) - 1) 0) = currentStep st"
  using steps_cases [of st] by (auto simp: indexOf_def array_get_def)

lemma handlePayReqChange_cases:
  "handlePayReqChange lib p vals = []
   \<or> (\<exists>d. handlePayReqChange lib p vals = [SetState [SetIsLn (Some True), SetIsOnchain None, SetInvoice (Some d)]])
   \<or> handlePayReqChange lib p vals = [SetState [SetIsLn None, SetIsOnchain (Some True), SetInvoice None]]
   \<or> handlePayReqChange lib p vals = [SetState [SetIsLn None, SetIsOnchain None, SetInvoice None]]"
  by (auto simp: handlePayReqChange_def Let_def split: sum.splits)

lemma step_inv_payReq: "step_inv st \<Longrightarrow> step_inv (apply_effects (handlePayReqChange lib p vals) st)"
  using handlePayReqChange_cases [of lib p vals]
  by (auto simp: step_inv_def setState_def)

lemma step_inv_next: "step_inv st \<Longrightarrow> step_inv (apply_effects (nextStep st) st)"
  using nextStep_member [of st] steps_subset [of st]
  by (auto simp: step_inv_def after_nextStep)

lemma step_inv_previous: "step_inv st \<Longrightarrow> step_inv (apply_effects (previousStep_handler st) st)"
  using previousStep_member [of st] steps_subset [of st]
  by (auto simp: step_inv_def after_previousStep)

section \<open>Effects of the handlers on the state\<close>

lemma apply_effects_append:
  "apply_effects (es @ fs) st = apply_effects fs (apply_effects es st)"
  by (induction es st rule: apply_effects.induct) simp_all

lemma apply_effects_no_setState:
  "filter is_setState es = [] \<Longrightarrow> apply_effects es st = st"
  by (induction es st rule: apply_effects.induct) (simp_all split: if_splits)

lemma filter_touched: "filter is_setState (map (\<lambda>field. FormSetTouched field False) fs) = []"
  by (induction fs) simp_all

lemma after_componentDidUpdate:
  "apply_effects (componentDidUpdate lib p prevProps prevState st form) s =
     (if truthy_str (initialPayReq p) \<and> initialPayReq p \<noteq> initialPayReq prevProps
      then apply_effects (handlePayReqChange lib p ((formValues form)\<lparr>payReq := initialPayReq p\<rparr>)) s
      else s)"
  by (simp add: componentDidUpdate_def apply_effects_append apply_effects_no_setState filter_touched
        split: option.splits)

lemma after_onSubmit:
  "apply_effects (onSubmit lib p st vals) s =
     (if currentStep st = Some ''summary'' then s else apply_effects (nextStep st) s)"
  by (simp add: onSubmit_def Let_def)

lemma reachable_step_inv: "reachable lib st \<Longrightarrow> step_inv st"
proof (induction rule: reachable.induct)
  case reach_init
  show ?case by (simp add: step_inv_def initial_state_def)
next
  case (reach_payReq st p vals)
  then show ?case by (simp add: step_inv_payReq)
next
  case (reach_next st)
  then show ?case by (simp add: step_inv_next)
next
  case (reach_previous st)
  then show ?case by (simp add: step_inv_previous)
next
  case (reach_submit st p vals)
  then show ?case by (simp add: after_onSubmit step_inv_next)
next
  case (reach_update st p prevProps prevState form)
  then show ?case by (simp add: after_componentDidUpdate step_inv_payReq)
qed

section \<open>The wizard stays within its steps\<close>

lemma reachable_known_step:
  "reachable lib st \<Longrightarrow> currentStep st \<in> {Some ''address'', Some ''amount'', Some ''summary''}"
  using reachable_step_inv [of lib st] by (simp add: step_inv_def)

lemma reachable_not_both:
  "reachable lib st \<Longrightarrow> \<not> (truthy_flag (isLn st) \<and> truthy_flag (isOnchain st))"
  using reachable_step_inv [of lib st] by (simp add: step_inv_def)

lemma nextStep_stays_at_last:
  assumes "currentStep st = Some (last (steps st))"
  shows "currentStep (apply_effects (nextStep st) st) = currentStep st"
proof -
  have "array_get (steps st)
          (min (indexOf (steps st) (currentStep st) + 1) (int (length (steps st)) - 1))
        = currentStep st"
    by (rule nextStep_at_last [OF assms])
  then show ?thesis by (simp add: after_nextStep)
qed

lemma previousStep_stays_at_first:
  assumes "currentStep st = Some (hd (steps st))"
  shows "currentStep (apply_effects (previousStep_handler st) st) = currentStep st"
proof -
  have "array_get (steps st) (max (indexOf (steps st) (currentStep st) - 1) 0) = currentStep st"
    by (rule previousStep_at_first [OF assms])
  then show ?thesis by (simp add: after_previousStep)
qed

lemma onchain_entered_eq: "onchain_entered = (onchain_state ''address'')\<lparr>previousStep := None\<rparr>"
  by (simp add: onchain_entered_def handlePayReqChange_def example_utils_def example_props_def
        form_with_def initial_state_def setState_def onchain_state_def)

text \<open>
  Claim C3: the enabled steps are \<open>address, summary\<close> when \<open>isLn\<close> is set,
  \<open>address, amount, summary\<close> when \<open>isOnchain\<close> is set (and \<open>isLn\<close> is not, which holds in
  every reachable state where \<open>isOnchain\<close> is set), and \<open>address\<close> when neither is set.
  \<^verbatim>\<open>nextStep\<close> and \<^verbatim>\<open>previousStep\<close> leave that list unchanged and always end on one of its
  members; at the last enabled step \<^verbatim>\<open>nextStep\<close> keeps \<open>currentStep\<close>, at the first one
  \<^verbatim>\<open>previousStep\<close> does. Hence \<open>currentStep\<close> is one of \<open>address\<close>, \<open>amount\<close>, \<open>summary\<close> after
  every such call and in every reachable state.
\<close>

theorem wizard_steps_clamped:
  "(truthy_flag (isLn st) \<longrightarrow> steps st = [''address'', ''summary''])
   \<and> (\<not> truthy_flag (isLn st) \<and> truthy_flag (isOnchain st) \<longrightarrow>
        steps st = [''address'', ''amount'', ''summary''])
   \<and> (reachable lib st \<and> truthy_flag (isOnchain st) \<longrightarrow>
        steps st = [''address'', ''amount'', ''summary''])
   \<and> (\<not> truthy_flag (isLn st) \<and> \<not> truthy_flag (isOnchain st) \<longrightarrow> steps st = [''address''])
   \<and> steps (apply_effects (nextStep st) st) = steps st
   \<and> steps (apply_effects (previousStep_handler st) st) = steps st
   \<and> currentStep (apply_effects (nextStep st) st) \<in> Some ` set (steps st)
   \<and> currentStep (apply_effects (previousStep_handler st) st) \<in> Some ` set (steps st)
   \<and> (currentStep st = Some (last (steps st)) \<longrightarrow>
        currentStep (apply_effects (nextStep st) st) = currentStep st)
   \<and> (currentStep st = Some (hd (steps st)) \<longrightarrow>
        currentStep (apply_effects (previousStep_handler st) st) = currentStep st)
   \<and> currentStep (apply_effects (nextStep st) st)
        \<in> {Some ''address'', Some ''amount'', Some ''summary''}
   \<and> currentStep (apply_effects (previousStep_handler st) st)
        \<in> {Some ''address'', Some ''amount'', Some ''summary''}
   \<and> (reachable lib st \<longrightarrow>
        currentStep st \<in> {Some ''address'', Some ''amount'', Some ''summary''})"
proof -
  have a: "truthy_flag (isLn st) \<longrightarrow> steps st = [''address'', ''summary'']"
    by (simp add: steps_def)
  have b: "\<not> truthy_flag (isLn st) \<and> truthy_flag (isOnchain st) \<longrightarrow>
        steps st = [''address'', ''amount'', ''summary'']"
    by (simp add: steps_def)
  have c: "reachable lib st \<and> truthy_flag (isOnchain st) \<longrightarrow>
        steps st = [''address'', ''amount'', ''summary'']"
    using reachable_not_both [of lib st] by (auto simp: steps_def)
  have d: "\<not> truthy_flag (isLn st) \<and> \<not> truthy_flag (isOnchain st) \<longrightarrow> steps st = [''address'']"
    by (simp add: steps_def)
  have e: "steps (apply_effects (nextStep st) st) = steps st"
    by (simp add: after_nextStep steps_frame)
  have f: "steps (apply_effects (previousStep_handler st) st) = steps st"
    by (simp add: after_previousStep steps_frame)
  have g: "currentStep (apply_effects (nextStep st) st) \<in> Some ` set (steps st)"
    by (rule nextStep_member)
  have h: "currentStep (apply_effects (previousStep_handler st) st) \<in> Some ` set (steps st)"
    by (rule previousStep_member)
  have i: "currentStep st = Some (last (steps st)) \<longrightarrow>
        currentStep (apply_effects (nextStep st) st) = currentStep st"
    using nextStep_stays_at_last [of st] by blast
  have j: "currentStep st = Some (hd (steps st)) \<longrightarrow>
        currentStep (apply_effects (previousStep_handler st) st) = currentStep st"
    using previousStep_stays_at_first [of st] by blast
  have k: "currentStep (apply_effects (nextStep st) st)
        \<in> {Some ''address'', Some ''amount'', Some ''summary''}"
    using g steps_subset [of st] by auto
  have l: "currentStep (apply_effects (previousStep_handler st) st)
        \<in> {Some ''address'', Some ''amount'', Some ''summary''}"
    using h steps_subset [of st] by auto
  have m: "reachable lib st \<longrightarrow>
        currentStep st \<in> {Some ''address'', Some ''amount'', Some ''summary''}"
    using reachable_known_step [of lib st] by blast
  show ?thesis by (intro conjI a b c d e f g h i j k l m)
qed

theorem wizard_steps_clamped_witness:
  "truthy_flag (isLn (ln_state ''summary''))
   \<and> steps (ln_state ''summary'') = [''address'', ''summary'']
   \<and> currentStep (ln_state ''summary'') = Some (last (steps (ln_state ''summary'')))
   \<and> currentStep (apply_effects (nextStep (ln_state ''summary'')) (ln_state ''summary''))
       = currentStep (ln_state ''summary'')
   \<and> reachable example_utils onchain_entered
   \<and> \<not> truthy_flag (isLn onchain_entered) \<and> truthy_flag (isOnchain onchain_entered)
   \<and> steps onchain_entered = [''address'', ''amount'', ''summary'']
   \<and> currentStep onchain_entered = Some (hd (steps onchain_entered))
   \<and> currentStep (apply_effects (previousStep_handler onchain_entered) onchain_entered)
       = currentStep onchain_entered
   \<and> currentStep onchain_entered \<in> {Some ''address'', Some ''amount'', Some ''summary''}
   \<and> \<not> truthy_flag (isLn initial_state) \<and> \<not> truthy_flag (isOnchain initial_state)
   \<and> steps initial_state = [''address'']"
proof -
  note ln_facts = wizard_steps_clamped [of "ln_state ''summary''" example_utils]
  note oc_facts = wizard_steps_clamped [of onchain_entered example_utils]
  note ini_facts = wizard_steps_clamped [of initial_state example_utils]
  have r: "reachable example_utils onchain_entered"
    unfolding onchain_entered_def by (rule reach_payReq [OF reach_init])
  have ln1: "truthy_flag (isLn (ln_state ''summary''))"
    by (simp add: ln_state_def)
  have ln2: "steps (ln_state ''summary'') = [''address'', ''summary'']"
    using ln_facts ln1 by blast
  have ln3: "currentStep (ln_state ''summary'') = Some (last (steps (ln_state ''summary'')))"
    unfolding ln2 by (simp add: ln_state_def)
  have ln4: "currentStep (apply_effects (nextStep (ln_state ''summary'')) (ln_state ''summary''))
       = currentStep (ln_state ''summary'')"
    using ln_facts ln3 by blast
  have oc1: "\<not> truthy_flag (isLn onchain_entered)" and oc2: "truthy_flag (isOnchain onchain_entered)"
    by (simp_all add: onchain_entered_eq onchain_state_def)
  have oc3: "steps onchain_entered = [''address'', ''amount'', ''summary'']"
    using oc_facts r oc2 by blast
  have oc4: "currentStep onchain_entered = Some (hd (steps onchain_entered))"
    unfolding oc3 by (simp add: onchain_entered_eq onchain_state_def)
  have oc5: "currentStep (apply_effects (previousStep_handler onchain_entered) onchain_entered)
       = currentStep onchain_entered"
    using oc_facts oc4 by blast
  have oc6: "currentStep onchain_entered \<in> {Some ''address'', Some ''amount'', Some ''summary''}"
    using oc_facts r by blast
  have ini1: "\<not> truthy_flag (isLn initial_state)" and ini2: "\<not> truthy_flag (isOnchain initial_state)"
    by (simp_all add: initial_state_def)
  have ini3: "steps initial_state = [''address'']"
    using ini_facts ini1 ini2 by blast
  show ?thesis
    by (intro conjI ln1 ln2 ln3 ln4 r oc1 oc2 oc3 oc4 oc5 oc6 ini1 ini2 ini3)
qed

text \<open>
  Claim C8: the guard of \<^verbatim>\<open>previousStep\<close> and \<^verbatim>\<open>nextStep\<close> compares \<open>currentStep\<close> with a
  number, so it always holds and both handlers always call \<^verbatim>\<open>setState\<close> with the clamped step
  and \<open>previousStep := currentStep\<close>. On the first enabled step \<^verbatim>\<open>previousStep\<close> (and on the
  last one \<^verbatim>\<open>nextStep\<close>) keeps \<open>currentStep\<close> and still overwrites the \<open>previousStep\<close> field
  with it.
\<close>

theorem step_update_unconditional:
  "\<not> strict_eq (step_val (currentStep st)) (JNumber n)
   \<and> previousStep_handler st =
       [SetState [SetCurrentStep (array_get (steps st)
                    (max (indexOf (steps st) (currentStep st) - 1) 0)),
                  SetPreviousStep (currentStep st)]]
   \<and> nextStep st =
       [SetState [SetCurrentStep (array_get (steps st)
                    (min (indexOf (steps st) (currentStep st) + 1) (int (length (steps st)) - 1))),
                  SetPreviousStep (currentStep st)]]
   \<and> previousStep (apply_effects (previousStep_handler st) st) = currentStep st
   \<and> previousStep (apply_effects (nextStep st) st) = currentStep st
   \<and> (currentStep st = Some (hd (steps st)) \<longrightarrow>
        currentStep (apply_effects (previousStep_handler st) st) = currentStep st
        \<and> previousStep (apply_effects (previousStep_handler st) st) = currentStep st)
   \<and> (currentStep st = Some (last (steps st)) \<longrightarrow>
        currentStep (apply_effects (nextStep st) st) = currentStep st
        \<and> previousStep (apply_effects (nextStep st) st) = currentStep st)"
proof -
  have a: "\<not> strict_eq (step_val (currentStep st)) (JNumber n)"
    by (simp add: strict_eq_step_number)
  have b: "previousStep (apply_effects (previousStep_handler st) st) = currentStep st"
    by (simp add: after_previousStep)
  have c: "previousStep (apply_effects (nextStep st) st) = currentStep st"
    by (simp add: after_nextStep)
  have d: "currentStep st = Some (hd (steps st)) \<longrightarrow>
        currentStep (apply_effects (previousStep_handler st) st) = currentStep st"
    using previousStep_stays_at_first [of st] by blast
  have e: "currentStep st = Some (last (steps st)) \<longrightarrow>
        currentStep (apply_effects (nextStep st) st) = currentStep st"
    using nextStep_stays_at_last [of st] by blast
  from d b have d': "currentStep st = Some (hd (steps st)) \<longrightarrow>
        currentStep (apply_effects (previousStep_handler st) st) = currentStep st
        \<and> previousStep (apply_effects (previousStep_handler st) st) = currentStep st"
    by blast
  from e c have e': "currentStep st = Some (last (steps st)) \<longrightarrow>
        currentStep (apply_effects (nextStep st) st) = currentStep st
        \<and> previousStep (apply_effects (nextStep st) st) = currentStep st"
    by blast
  show ?thesis
    by (intro conjI a b c d' e' previousStep_effects nextStep_effects)
qed

theorem step_update_unconditional_witness:
  "currentStep (onchain_state ''address'') = Some (hd (steps (onchain_state ''address'')))
   \<and> currentStep (apply_effects (previousStep_handler (onchain_state ''address''))
        (onchain_state ''address'')) = Some ''address''
   \<and> previousStep (apply_effects (previousStep_handler (onchain_state ''address''))
        (onchain_state ''address'')) = Some ''address''
   \<and> currentStep (ln_state ''summary'') = Some (last (steps (ln_state ''summary'')))
   \<and> previousStep (ln_state ''summary'') = Some ''address''
   \<and> currentStep (apply_effects (nextStep (ln_state ''summary'')) (ln_state ''summary''))
       = Some ''summary''
   \<and> previousStep (apply_effects (nextStep (ln_state ''summary'')) (ln_state ''summary''))
       = Some ''summary''"
proof -
  note oc_facts = step_update_unconditional [of "onchain_state ''address''" 0]
  note ln_facts = step_update_unconditional [of "ln_state ''summary''" 1]
  have oc0: "currentStep (onchain_state ''address'') = Some ''address''"
    by (simp add: onchain_state_def)
  have oc1: "currentStep (onchain_state ''address'') = Some (hd (steps (onchain_state ''address'')))"
    by (simp add: onchain_state_def steps_def)
  have oc2: "currentStep (apply_effects (previousStep_handler (onchain_state ''address''))
        (onchain_state ''address'')) = currentStep (onchain_state ''address'')"
    and oc3: "previousStep (apply_effects (previousStep_handler (onchain_state ''address''))
        (onchain_state ''address'')) = currentStep (onchain_state ''address'')"
    using oc_facts oc1 by blast+
  have ln0: "currentStep (ln_state ''summary'') = Some ''summary''"
    and ln5: "previousStep (ln_state ''summary'') = Some ''address''"
    by (simp_all add: ln_state_def)
  have ln1: "currentStep (ln_state ''summary'') = Some (last (steps (ln_state ''summary'')))"
    by (simp add: ln_state_def steps_def)
  have ln2: "currentStep (apply_effects (nextStep (ln_state ''summary'')) (ln_state ''summary''))
       = currentStep (ln_state ''summary'')"
    and ln3: "previousStep (apply_effects (nextStep (ln_state ''summary'')) (ln_state ''summary''))
       = currentStep (ln_state ''summary'')"
    using ln_facts ln1 by blast+
  show ?thesis
    by (intro conjI oc1 ln1 ln5 oc2 [unfolded oc0] oc3 [unfolded oc0] ln2 [unfolded ln0]
          ln3 [unfolded ln0])
qed

section \<open>Classification of the payment request\<close>

lemma after_handlePayReqChange:
  "\<not> decode_fails lib p vals \<Longrightarrow>
   apply_effects (handlePayReqChange lib p vals) st =
     st\<lparr>isLn := (if utils_isLn lib (payReq vals) (chain p) (network p) then Some True else None),
        isOnchain := (if \<not> utils_isLn lib (payReq vals) (chain p) (network p)
                         \<and> utils_isOnchain lib (payReq vals) (chain p) (network p)
                      then Some True else None),
        invoice := (if utils_isLn lib (payReq vals) (chain p) (network p)
                    then Some (projr (decodePayReq lib (payReq vals))) else None)\<rparr>"
  by (auto simp: handlePayReqChange_def decode_fails_def Let_def setState_def split: sum.splits)

text \<open>
  Claim C1, as stated, fails: with a payReq field that is neither a Lightning request nor an
  on-chain address (here the empty field), \<^verbatim>\<open>handlePayReqChange\<close> sets both flags to
  \<^verbatim>\<open>null\<close>, so after the run neither \<open>isLn\<close> nor \<open>isOnchain\<close> is set.
\<close>

theorem handlePayReqChange_neither_flag_counterexample:
  "\<not> exactly_one_flag
        (apply_effects
           (handlePayReqChange example_utils example_props (formValues (form_with [] None)))
           initial_state)"
  by (simp add: exactly_one_flag_def handlePayReqChange_def example_utils_def example_props_def
        form_with_def initial_state_def setState_def)

text \<open>
  Claim C1, amended: after every run of \<^verbatim>\<open>handlePayReqChange\<close> in a reachable state, at
  most one of \<open>isLn\<close> and \<open>isOnchain\<close> is set. When the run reaches its state update (every
  run but the one where the request is recognised as Lightning and fails to decode), \<open>isLn\<close>
  is set exactly when \<^verbatim>\<open>isLn(payReq, chain, network)\<close> holds, \<open>isOnchain\<close> is set exactly when
  that does not hold and \<^verbatim>\<open>isOnchain(payReq, chain, network)\<close> holds, and so exactly one flag
  is set exactly when the payReq is recognised by one of the two tests; a payReq recognised
  by neither leaves both flags unset.
\<close>

theorem handlePayReqChange_at_most_one_flag:
  "(reachable lib st \<longrightarrow>
      \<not> (truthy_flag (isLn (apply_effects (handlePayReqChange lib p vals) st))
          \<and> truthy_flag (isOnchain (apply_effects (handlePayReqChange lib p vals) st))))
   \<and> (\<not> decode_fails lib p vals \<longrightarrow>
        truthy_flag (isLn (apply_effects (handlePayReqChange lib p vals) st))
          = utils_isLn lib (payReq vals) (chain p) (network p)
        \<and> truthy_flag (isOnchain (apply_effects (handlePayReqChange lib p vals) st))
          = (\<not> utils_isLn lib (payReq vals) (chain p) (network p)
               \<and> utils_isOnchain lib (payReq vals) (chain p) (network p))
        \<and> exactly_one_flag (apply_effects (handlePayReqChange lib p vals) st)
          = (utils_isLn lib (payReq vals) (chain p) (network p)
               \<or> utils_isOnchain lib (payReq vals) (chain p) (network p)))"
proof (intro conjI impI)
  assume "reachable lib st"
  then have "reachable lib (apply_effects (handlePayReqChange lib p vals) st)"
    by (rule reach_payReq)
  then show "\<not> (truthy_flag (isLn (apply_effects (handlePayReqChange lib p vals) st))
          \<and> truthy_flag (isOnchain (apply_effects (handlePayReqChange lib p vals) st)))"
    using reachable_step_inv step_inv_def by blast
next
  assume "\<not> decode_fails lib p vals"
  then show "truthy_flag (isLn (apply_effects (handlePayReqChange lib p vals) st))
          = utils_isLn lib (payReq vals) (chain p) (network p)"
    by (simp add: after_handlePayReqChange)
next
  assume "\<not> decode_fails lib p vals"
  then show "truthy_flag (isOnchain (apply_effects (handlePayReqChange lib p vals) st))
          = (\<not> utils_isLn lib (payReq vals) (chain p) (network p)
               \<and> utils_isOnchain lib (payReq vals) (chain p) (network p))"
    by (simp add: after_handlePayReqChange)
next
  assume "\<not> decode_fails lib p vals"
  then show "exactly_one_flag (apply_effects (handlePayReqChange lib p vals) st)
          = (utils_isLn lib (payReq vals) (chain p) (network p)
               \<or> utils_isOnchain lib (payReq vals) (chain p) (network p))"
    by (auto simp: after_handlePayReqChange exactly_one_flag_def)
qed

theorem handlePayReqChange_at_most_one_flag_witness:
  "reachable example_utils initial_state
   \<and> \<not> decode_fails example_utils example_props (formValues (form_with ''bc1q'' None))
   \<and> exactly_one_flag
        (apply_effects
           (handlePayReqChange example_utils example_props (formValues (form_with ''bc1q'' None)))
           initial_state)
   \<and> \<not> truthy_flag (isLn
        (apply_effects
           (handlePayReqChange example_utils example_props (formValues (form_with ''bc1q'' None)))
           initial_state))"
  using handlePayReqChange_at_most_one_flag
          [of example_utils initial_state example_props "formValues (form_with ''bc1q'' None)"]
    reach_init [of example_utils]
  by (simp add: decode_fails_def example_utils_def example_props_def form_with_def)

text \<open>
  Claim C5: when the payReq is recognised as a Lightning request and \<^verbatim>\<open>decodePayReq\<close>
  throws, \<^verbatim>\<open>handlePayReqChange\<close> returns without calling \<^verbatim>\<open>setState\<close>: it has no effect at
  all, and \<open>isLn\<close>, \<open>isOnchain\<close> and \<open>invoice\<close> keep the values they had.
\<close>

theorem handlePayReqChange_decode_failure:
  "utils_isLn lib (payReq vals) (chain p) (network p) \<Longrightarrow>
   decodePayReq lib (payReq vals) = Inl e \<Longrightarrow>
   handlePayReqChange lib p vals = []
   \<and> apply_effects (handlePayReqChange lib p vals) st = st
   \<and> isLn (apply_effects (handlePayReqChange lib p vals) st) = isLn st
   \<and> isOnchain (apply_effects (handlePayReqChange lib p vals) st) = isOnchain st
   \<and> invoice (apply_effects (handlePayReqChange lib p vals) st) = invoice st"
  by (simp add: handlePayReqChange_def)

theorem handlePayReqChange_decode_failure_witness:
  "utils_isLn example_utils (payReq (formValues (form_with ''lnxx'' None))) (chain example_props)
     (network example_props)
   \<and> decodePayReq example_utils (payReq (formValues (form_with ''lnxx'' None))) = Inl DecodeError
   \<and> handlePayReqChange example_utils example_props (formValues (form_with ''lnxx'' None)) = []
   \<and> apply_effects
        (handlePayReqChange example_utils example_props (formValues (form_with ''lnxx'' None)))
        (ln_state ''address'') = ln_state ''address''"
proof -
  have a: "utils_isLn example_utils (payReq (formValues (form_with ''lnxx'' None)))
             (chain example_props) (network example_props)"
    by (simp add: example_utils_def form_with_def)
  have b: "decodePayReq example_utils (payReq (formValues (form_with ''lnxx'' None)))
             = Inl DecodeError"
    by (simp add: example_utils_def form_with_def)
  show ?thesis
    using a b handlePayReqChange_decode_failure [OF a b, of "ln_state ''address''"] by simp
qed

section \<open>Submission and route queries\<close>

lemma filter_payment_nextStep: "filter is_payment (nextStep st) = []"
  by (simp add: nextStep_effects)

lemma nextStep_frame:
  "isLn (apply_effects (nextStep st) st) = isLn st
   \<and> isOnchain (apply_effects (nextStep st) st) = isOnchain st
   \<and> invoice (apply_effects (nextStep st) st) = invoice st
   \<and> previousStep (apply_effects (nextStep st) st) = currentStep st"
  by (simp add: after_nextStep)

lemma nextStep_following:
  assumes "i + 1 < length (steps st)" and "currentStep st = Some (steps st ! i)"
  shows "currentStep (apply_effects (nextStep st) st) = Some (steps st ! (i + 1))"
proof -
  have "array_get (steps st)
          (min (indexOf (steps st) (Some (steps st ! i)) + 1) (int (length (steps st)) - 1))
        = Some (steps st ! (i + 1))"
    using steps_cases [of st] assms(1)
    by (auto simp: indexOf_def array_get_def less_Suc_eq numeral_2_eq_2 numeral_3_eq_3)
  then show ?thesis by (simp add: after_nextStep assms(2))
qed

lemma nextStep_outside:
  assumes "currentStep st \<notin> Some ` set (steps st)"
  shows "currentStep (apply_effects (nextStep st) st) = Some ''address''"
proof -
  have "array_get (steps st)
          (min (indexOf (steps st) (currentStep st) + 1) (int (length (steps st)) - 1))
        = Some ''address''"
    using steps_cases [of st] assms
    by (cases "currentStep st") (auto simp: indexOf_def array_get_def)
  then show ?thesis by (simp add: after_nextStep)
qed


lemma ln_state_amount_reachable: "reachable example_utils (ln_state ''amount'')"
proof -
  let ?a = "apply_effects (nextStep onchain_entered) onchain_entered"
  have r: "reachable example_utils onchain_entered"
    unfolding onchain_entered_def by (rule reach_payReq [OF reach_init])
  have a: "?a = onchain_state ''amount''"
    by (simp add: after_nextStep onchain_entered_eq onchain_state_def steps_def indexOf_def
          array_get_def)
  have "reachable example_utils
          (apply_effects
             (handlePayReqChange example_utils example_props
                (formValues (form_with ''lnbc1500'' None))) ?a)"
    by (rule reach_payReq [OF reach_next [OF r]])
  moreover have "apply_effects
             (handlePayReqChange example_utils example_props
                (formValues (form_with ''lnbc1500'' None))) ?a = ln_state ''amount''"
    unfolding a
    by (simp add: handlePayReqChange_def example_utils_def example_props_def form_with_def
          parseInt10_1500 setState_def onchain_state_def ln_state_def)
  ultimately show ?thesis by simp
qed

text \<open>
  Claim C2, as stated, fails in its last part: off the summary step the form does not always
  advance. In the initial state (step \<open>address\<close>, no flag set) a submission leaves
  \<open>currentStep\<close> at \<open>address\<close>; and in the reachable state with \<open>isLn\<close> set on step \<open>amount\<close>,
  a step that is not enabled for a Lightning payment, it goes back to \<open>address\<close>.
\<close>

theorem onSubmit_does_not_advance_counterexample:
  "currentStep initial_state = Some ''address''
   \<and> currentStep
        (apply_effects
           (onSubmit example_utils example_props initial_state (formValues (form_with [] None)))
           initial_state) = Some ''address''
   \<and> reachable example_utils (ln_state ''amount'')
   \<and> currentStep (ln_state ''amount'') = Some ''amount''
   \<and> currentStep
        (apply_effects
           (onSubmit example_utils example_props (ln_state ''amount'')
              (formValues (form_with ''lnbc1500'' None)))
           (ln_state ''amount'')) = Some ''address''"
proof -
  have a: "currentStep initial_state = Some ''address''"
    by (simp add: initial_state_def)
  have b: "currentStep
        (apply_effects
           (onSubmit example_utils example_props initial_state (formValues (form_with [] None)))
           initial_state) = Some ''address''"
    by (simp add: after_onSubmit after_nextStep initial_state_def steps_def indexOf_def
          array_get_def)
  have c: "currentStep (ln_state ''amount'') = Some ''amount''"
    by (simp add: ln_state_def)
  have d: "currentStep
        (apply_effects
           (onSubmit example_utils example_props (ln_state ''amount'')
              (formValues (form_with ''lnbc1500'' None)))
           (ln_state ''amount'')) = Some ''address''"
    by (simp add: after_onSubmit after_nextStep ln_state_def steps_def indexOf_def array_get_def)
  show ?thesis by (intro conjI a b ln_state_amount_reachable c d)
qed

text \<open>
  Claim C2, amended: on the summary step \<^verbatim>\<open>onSubmit\<close> calls \<^verbatim>\<open>sendCoins\<close> with the
  amountCrypto field, the payReq field, the selected crypto currency and
  \<^verbatim>\<open>onchainFees.fastestFee\<close> when \<open>isOnchain\<close> is set, and \<^verbatim>\<open>payInvoice\<close> with the payReq
  field and \<^verbatim>\<open>getMaxFee(routes)\<close> otherwise. On any other step it calls neither and runs
  \<^verbatim>\<open>nextStep\<close>: \<open>previousStep\<close> becomes the old \<open>currentStep\<close>, the flags and the invoice are
  kept, and \<open>currentStep\<close> becomes the enabled step that follows it; it stays where it is
  when it is the last enabled step, and becomes \<open>address\<close> when it is not an enabled step.
\<close>

theorem onSubmit_dispatch:
  "(currentStep st = Some ''summary'' \<and> truthy_flag (isOnchain st) \<longrightarrow>
      onSubmit lib p st vals =
        [SendCoins \<lparr>sc_value = amountCrypto vals, sc_addr = payReq vals,
                     sc_currency = cryptoCurrency p,
                     sc_satPerByte = fastestFee (onchainFees p)\<rparr>])
   \<and> (currentStep st = Some ''summary'' \<and> \<not> truthy_flag (isOnchain st) \<longrightarrow>
        onSubmit lib p st vals = [PayInvoice (payReq vals) (getMaxFee lib (routes p))])
   \<and> (currentStep st \<noteq> Some ''summary'' \<longrightarrow>
        filter is_payment (onSubmit lib p st vals) = []
        \<and> previousStep (apply_effects (onSubmit lib p st vals) st) = currentStep st
        \<and> isLn (apply_effects (onSubmit lib p st vals) st) = isLn st
        \<and> isOnchain (apply_effects (onSubmit lib p st vals) st) = isOnchain st
        \<and> invoice (apply_effects (onSubmit lib p st vals) st) = invoice st)
   \<and> (currentStep st \<noteq> Some ''summary'' \<and> i + 1 < length (steps st)
        \<and> currentStep st = Some (steps st ! i) \<longrightarrow>
        currentStep (apply_effects (onSubmit lib p st vals) st) = Some (steps st ! (i + 1)))
   \<and> (currentStep st \<noteq> Some ''summary'' \<and> currentStep st = Some (last (steps st)) \<longrightarrow>
        currentStep (apply_effects (onSubmit lib p st vals) st) = currentStep st)
   \<and> (currentStep st \<noteq> Some ''summary'' \<and> currentStep st \<notin> Some ` set (steps st) \<longrightarrow>
        currentStep (apply_effects (onSubmit lib p st vals) st) = Some ''address'')"
proof -
  have a: "currentStep st = Some ''summary'' \<and> truthy_flag (isOnchain st) \<longrightarrow>
      onSubmit lib p st vals =
        [SendCoins \<lparr>sc_value = amountCrypto vals, sc_addr = payReq vals,
                     sc_currency = cryptoCurrency p,
                     sc_satPerByte = fastestFee (onchainFees p)\<rparr>]"
    by (simp add: onSubmit_def Let_def)
  have b: "currentStep st = Some ''summary'' \<and> \<not> truthy_flag (isOnchain st) \<longrightarrow>
        onSubmit lib p st vals = [PayInvoice (payReq vals) (getMaxFee lib (routes p))]"
    by (simp add: onSubmit_def Let_def)
  have c: "currentStep st \<noteq> Some ''summary'' \<longrightarrow>
        filter is_payment (onSubmit lib p st vals) = []
        \<and> previousStep (apply_effects (onSubmit lib p st vals) st) = currentStep st
        \<and> isLn (apply_effects (onSubmit lib p st vals) st) = isLn st
        \<and> isOnchain (apply_effects (onSubmit lib p st vals) st) = isOnchain st
        \<and> invoice (apply_effects (onSubmit lib p st vals) st) = invoice st"
    using nextStep_frame [of st]
    by (simp add: after_onSubmit) (simp add: onSubmit_def Let_def filter_payment_nextStep)
  have run: "currentStep st \<noteq> Some ''summary'' \<Longrightarrow>
        apply_effects (onSubmit lib p st vals) st = apply_effects (nextStep st) st"
    by (simp add: after_onSubmit)
  have d: "currentStep st \<noteq> Some ''summary'' \<and> i + 1 < length (steps st)
        \<and> currentStep st = Some (steps st ! i) \<longrightarrow>
        currentStep (apply_effects (onSubmit lib p st vals) st) = Some (steps st ! (i + 1))"
  proof (intro impI, elim conjE)
    assume n: "currentStep st \<noteq> Some ''summary''" and i: "i + 1 < length (steps st)"
      and c: "currentStep st = Some (steps st ! i)"
    show "currentStep (apply_effects (onSubmit lib p st vals) st) = Some (steps st ! (i + 1))"
      unfolding run [OF n] by (rule nextStep_following [OF i c])
  qed
  have e: "currentStep st \<noteq> Some ''summary'' \<and> currentStep st = Some (last (steps st)) \<longrightarrow>
        currentStep (apply_effects (onSubmit lib p st vals) st) = currentStep st"
  proof (intro impI, elim conjE)
    assume n: "currentStep st \<noteq> Some ''summary''" and c: "currentStep st = Some (last (steps st))"
    show "currentStep (apply_effects (onSubmit lib p st vals) st) = currentStep st"
      unfolding run [OF n] by (rule nextStep_stays_at_last [OF c])
  qed
  have f: "currentStep st \<noteq> Some ''summary'' \<and> currentStep st \<notin> Some ` set (steps st) \<longrightarrow>
        currentStep (apply_effects (onSubmit lib p st vals) st) = Some ''address''"
  proof (intro impI, elim conjE)
    assume n: "currentStep st \<noteq> Some ''summary''" and c: "currentStep st \<notin> Some ` set (steps st)"
    show "currentStep (apply_effects (onSubmit lib p st vals) st) = Some ''address''"
      unfolding run [OF n] by (rule nextStep_outside [OF c])
  qed
  show ?thesis by (intro conjI a b c d e f)
qed


theorem onSubmit_dispatch_witness:
  "currentStep (onchain_state ''summary'') = Some ''summary''
   \<and> truthy_flag (isOnchain (onchain_state ''summary''))
   \<and> onSubmit example_utils example_props (onchain_state ''summary'')
        (formValues (form_with ''bc1q'' (Some ''2500'')))
      = [SendCoins \<lparr>sc_value = Some ''2500'', sc_addr = Some ''bc1q'', sc_currency = ''sats'',
                     sc_satPerByte = Some (Fin 20)\<rparr>]
   \<and> currentStep (ln_state ''summary'') = Some ''summary''
   \<and> \<not> truthy_flag (isOnchain (ln_state ''summary''))
   \<and> onSubmit example_utils example_props (ln_state ''summary'')
        (formValues (form_with ''lnbc1500'' None))
      = [PayInvoice (Some ''lnbc1500'') None]
   \<and> currentStep (onchain_state ''address'') \<noteq> Some ''summary''
   \<and> 0 + 1 < length (steps (onchain_state ''address''))
   \<and> currentStep (onchain_state ''address'') = Some (steps (onchain_state ''address'') ! 0)
   \<and> currentStep
        (apply_effects
           (onSubmit example_utils example_props (onchain_state ''address'')
              (formValues (form_with ''bc1q'' None)))
           (onchain_state ''address'')) = Some ''amount''
   \<and> previousStep
        (apply_effects
           (onSubmit example_utils example_props (onchain_state ''address'')
              (formValues (form_with ''bc1q'' None)))
           (onchain_state ''address'')) = Some ''address''
   \<and> currentStep initial_state \<noteq> Some ''summary''
   \<and> currentStep initial_state = Some (last (steps initial_state))
   \<and> currentStep
        (apply_effects
           (onSubmit example_utils example_props initial_state (formValues (form_with [] None)))
           initial_state) = Some ''address''
   \<and> currentStep (ln_state ''amount'') \<noteq> Some ''summary''
   \<and> currentStep (ln_state ''amount'') \<notin> Some ` set (steps (ln_state ''amount''))
   \<and> currentStep
        (apply_effects
           (onSubmit example_utils example_props (ln_state ''amount'')
              (formValues (form_with ''lnbc1500'' None)))
           (ln_state ''amount'')) = Some ''address''"
proof -
  note oc = onSubmit_dispatch [of "onchain_state ''summary''" example_utils example_props
                                 "formValues (form_with ''bc1q'' (Some ''2500''))" 0]
  note ln = onSubmit_dispatch [of "ln_state ''summary''" example_utils example_props
                                 "formValues (form_with ''lnbc1500'' None)" 0]
  note ad = onSubmit_dispatch [of "onchain_state ''address''" example_utils example_props
                                 "formValues (form_with ''bc1q'' None)" 0]
  note ini = onSubmit_dispatch [of initial_state example_utils example_props
                                  "formValues (form_with [] None)" 0]
  note out = onSubmit_dispatch [of "ln_state ''amount''" example_utils example_props
                                  "formValues (form_with ''lnbc1500'' None)" 0]
  have oc1: "currentStep (onchain_state ''summary'') = Some ''summary''"
    and oc2: "truthy_flag (isOnchain (onchain_state ''summary''))"
    by (simp_all add: onchain_state_def)
  have ln1: "currentStep (ln_state ''summary'') = Some ''summary''"
    and ln2: "\<not> truthy_flag (isOnchain (ln_state ''summary''))"
    by (simp_all add: ln_state_def)
  have oc3: "onSubmit example_utils example_props (onchain_state ''summary'')
        (formValues (form_with ''bc1q'' (Some ''2500'')))
      = [SendCoins \<lparr>sc_value = Some ''2500'', sc_addr = Some ''bc1q'', sc_currency = ''sats'',
                     sc_satPerByte = Some (Fin 20)\<rparr>]"
    using oc oc1 oc2 by (simp add: form_with_def example_props_def)
  have ln3: "onSubmit example_utils example_props (ln_state ''summary'')
        (formValues (form_with ''lnbc1500'' None))
      = [PayInvoice (Some ''lnbc1500'') None]"
    using ln ln1 ln2 by (simp add: form_with_def example_props_def example_utils_def)
  have st: "steps (onchain_state ''address'') = [''address'', ''amount'', ''summary'']"
    by (simp add: steps_def onchain_state_def)
  have ad0: "currentStep (onchain_state ''address'') = Some ''address''"
    by (simp add: onchain_state_def)
  have ad1: "currentStep (onchain_state ''address'') \<noteq> Some ''summary''"
    by (simp add: onchain_state_def)
  have ad2: "0 + 1 < length (steps (onchain_state ''address''))"
    by (simp add: st)
  have ad3: "currentStep (onchain_state ''address'') = Some (steps (onchain_state ''address'') ! 0)"
    by (simp add: st ad0)
  have "currentStep
        (apply_effects
           (onSubmit example_utils example_props (onchain_state ''address'')
              (formValues (form_with ''bc1q'' None)))
           (onchain_state ''address'')) = Some (steps (onchain_state ''address'') ! (0 + 1))"
    using ad ad1 ad2 ad3 by blast
  then have ad4: "currentStep
        (apply_effects
           (onSubmit example_utils example_props (onchain_state ''address'')
              (formValues (form_with ''bc1q'' None)))
           (onchain_state ''address'')) = Some ''amount''"
    by (simp add: st)
  have "previousStep
        (apply_effects
           (onSubmit example_utils example_props (onchain_state ''address'')
              (formValues (form_with ''bc1q'' None)))
           (onchain_state ''address'')) = currentStep (onchain_state ''address'')"
    using ad ad1 by blast
  then have ad5: "previousStep
        (apply_effects
           (onSubmit example_utils example_props (onchain_state ''address'')
              (formValues (form_with ''bc1q'' None)))
           (onchain_state ''address'')) = Some ''address''"
    by (simp add: ad0)
  have ini0: "currentStep initial_state = Some ''address''"
    by (simp add: initial_state_def)
  have ini1: "currentStep initial_state \<noteq> Some ''summary''"
    by (simp add: initial_state_def)
  have ini2: "currentStep initial_state = Some (last (steps initial_state))"
    by (simp add: initial_state_def steps_def)
  have "currentStep
        (apply_effects
           (onSubmit example_utils example_props initial_state (formValues (form_with [] None)))
           initial_state) = currentStep initial_state"
    using ini ini1 ini2 by blast
  then have ini3: "currentStep
        (apply_effects
           (onSubmit example_utils example_props initial_state (formValues (form_with [] None)))
           initial_state) = Some ''address''"
    by (simp add: ini0)
  have out1: "currentStep (ln_state ''amount'') \<noteq> Some ''summary''"
    by (simp add: ln_state_def)
  have out2: "currentStep (ln_state ''amount'') \<notin> Some ` set (steps (ln_state ''amount''))"
    by (simp add: ln_state_def steps_def)
  have out3: "currentStep
        (apply_effects
           (onSubmit example_utils example_props (ln_state ''amount'')
              (formValues (form_with ''lnbc1500'' None)))
           (ln_state ''amount'')) = Some ''address''"
    using out out1 out2 by blast
  show ?thesis
    by (intro conjI oc1 oc2 oc3 ln1 ln2 ln3 ad1 ad2 ad3 ad4 ad5 ini1 ini2 ini3 out1 out2 out3)
qed

lemma filter_queryRoutes_handlePayReqChange:
  "filter is_queryRoutes (handlePayReqChange lib p vals) = []"
  using handlePayReqChange_cases [of lib p vals] by auto

lemma filter_queryRoutes_touched:
  "filter is_queryRoutes (map (\<lambda>field. FormSetTouched field False) fs) = []"
  by (induction fs) simp_all

lemma componentDidUpdate_queryRoutes:
  "filter is_queryRoutes (componentDidUpdate lib p prevProps prevState st form) =
     (if truthy_flag (isLn st) \<and> isLn st \<noteq> isLn prevState then
        (case invoice st of None \<Rightarrow> [] | Some i \<Rightarrow> [QueryRoutes (payeeNodeKey i) (satoshis i)])
      else [])"
  by (simp add: componentDidUpdate_def filter_queryRoutes_handlePayReqChange
        filter_queryRoutes_touched split: option.splits)

lemma componentDidUpdate_submits:
  "truthy_flag (isLn st) \<Longrightarrow> isLn st \<noteq> isLn prevState \<Longrightarrow>
   FormSubmit \<in> set (componentDidUpdate lib p prevProps prevState st form)"
  by (simp add: componentDidUpdate_def)

lemma flag_changed: "truthy_flag a \<Longrightarrow> \<not> truthy_flag b \<Longrightarrow> a \<noteq> b"
  by auto

text \<open>
  Claim C4: in an update where \<open>isLn\<close> goes from unset to set and the state holds a decoded
  invoice, \<^verbatim>\<open>componentDidUpdate\<close> submits the form and calls \<^verbatim>\<open>queryRoutes\<close> exactly once,
  with the invoice's \<open>payeeNodeKey\<close> and \<open>satoshis\<close>. In particular, when \<open>isLn\<close> was unset and
  \<^verbatim>\<open>handlePayReqChange\<close> runs on a payReq that is recognised as Lightning and decodes, the new
  state has \<open>isLn\<close> set and holds the invoice, and the update that follows makes that one query.
\<close>

theorem componentDidUpdate_queries_routes:
  "(truthy_flag (isLn st) \<and> \<not> truthy_flag (isLn prevState) \<and> invoice st = Some i \<longrightarrow>
      FormSubmit \<in> set (componentDidUpdate lib p prevProps prevState st form)
      \<and> filter is_queryRoutes (componentDidUpdate lib p prevProps prevState st form)
          = [QueryRoutes (payeeNodeKey i) (satoshis i)])
   \<and> (utils_isLn lib (payReq vals) (chain p) (network p)
        \<and> decodePayReq lib (payReq vals) = Inr i \<and> \<not> truthy_flag (isLn prevState) \<longrightarrow>
        truthy_flag (isLn (apply_effects (handlePayReqChange lib p vals) prevState))
        \<and> invoice (apply_effects (handlePayReqChange lib p vals) prevState) = Some i
        \<and> FormSubmit \<in> set (componentDidUpdate lib p prevProps prevState
                               (apply_effects (handlePayReqChange lib p vals) prevState) form)
        \<and> filter is_queryRoutes
            (componentDidUpdate lib p prevProps prevState
               (apply_effects (handlePayReqChange lib p vals) prevState) form)
          = [QueryRoutes (payeeNodeKey i) (satoshis i)])"
proof (intro conjI impI)
  assume a: "truthy_flag (isLn st) \<and> \<not> truthy_flag (isLn prevState) \<and> invoice st = Some i"
  then have ne: "isLn st \<noteq> isLn prevState" using flag_changed by blast
  from a ne show "FormSubmit \<in> set (componentDidUpdate lib p prevProps prevState st form)"
    by (simp add: componentDidUpdate_submits)
  from a ne show "filter is_queryRoutes (componentDidUpdate lib p prevProps prevState st form)
          = [QueryRoutes (payeeNodeKey i) (satoshis i)]"
    by (simp add: componentDidUpdate_queryRoutes)
next
  let ?st = "apply_effects (handlePayReqChange lib p vals) prevState"
  assume b: "utils_isLn lib (payReq vals) (chain p) (network p)
        \<and> decodePayReq lib (payReq vals) = Inr i \<and> \<not> truthy_flag (isLn prevState)"
  then have eff: "handlePayReqChange lib p vals
                  = [SetState [SetIsLn (Some True), SetIsOnchain None, SetInvoice (Some i)]]"
    by (simp add: handlePayReqChange_def)
  show t: "truthy_flag (isLn ?st)" by (simp add: eff setState_def)
  show v: "invoice ?st = Some i" by (simp add: eff setState_def)
  from t b have ne: "isLn ?st \<noteq> isLn prevState" using flag_changed by blast
  from t ne show "FormSubmit \<in> set (componentDidUpdate lib p prevProps prevState ?st form)"
    by (rule componentDidUpdate_submits)
  from t ne v show "filter is_queryRoutes (componentDidUpdate lib p prevProps prevState ?st form)
          = [QueryRoutes (payeeNodeKey i) (satoshis i)]"
    by (simp add: componentDidUpdate_queryRoutes)
qed

theorem componentDidUpdate_queries_routes_witness:
  "utils_isLn example_utils (payReq (formValues (form_with ''lnbc1500'' None)))
     (chain example_props) (network example_props)
   \<and> decodePayReq example_utils (payReq (formValues (form_with ''lnbc1500'' None)))
       = Inr \<lparr>satoshis = Fin 1500, payeeNodeKey = ''02abc''\<rparr>
   \<and> \<not> truthy_flag (isLn initial_state)
   \<and> truthy_flag (isLn ln_entered)
   \<and> invoice ln_entered = Some \<lparr>satoshis = Fin 1500, payeeNodeKey = ''02abc''\<rparr>
   \<and> FormSubmit \<in> set (componentDidUpdate example_utils example_props example_props
                          initial_state ln_entered (form_with ''lnbc1500'' None))
   \<and> filter is_queryRoutes
        (componentDidUpdate example_utils example_props example_props initial_state ln_entered
           (form_with ''lnbc1500'' None))
      = [QueryRoutes ''02abc'' (Fin 1500)]"
proof -
  note facts = componentDidUpdate_queries_routes [of ln_entered initial_state
                    "\<lparr>satoshis = Fin 1500, payeeNodeKey = ''02abc''\<rparr>" example_utils
                    example_props example_props "form_with ''lnbc1500'' None"
                    "formValues (form_with ''lnbc1500'' None)"]
  have a: "utils_isLn example_utils (payReq (formValues (form_with ''lnbc1500'' None)))
     (chain example_props) (network example_props)"
    by (simp add: example_utils_def form_with_def)
  have d: "parseInt10 ''1500'' = Fin 1500"
    using parseInt10_digitString [of "''1500''"]
    by (simp add: digitString_def isDigit_def digitsValue_def)
  have b: "decodePayReq example_utils (payReq (formValues (form_with ''lnbc1500'' None)))
       = Inr \<lparr>satoshis = Fin 1500, payeeNodeKey = ''02abc''\<rparr>"
    by (simp add: example_utils_def form_with_def d)
  have c: "\<not> truthy_flag (isLn initial_state)"
    by (simp add: initial_state_def)
  from facts a b c
  have e: "truthy_flag (isLn ln_entered)
        \<and> invoice ln_entered = Some \<lparr>satoshis = Fin 1500, payeeNodeKey = ''02abc''\<rparr>
        \<and> FormSubmit \<in> set (componentDidUpdate example_utils example_props example_props
                               initial_state ln_entered (form_with ''lnbc1500'' None))
        \<and> filter is_queryRoutes
            (componentDidUpdate example_utils example_props example_props initial_state
               ln_entered (form_with ''lnbc1500'' None))
          = [QueryRoutes (payeeNodeKey \<lparr>satoshis = Fin 1500, payeeNodeKey = ''02abc''\<rparr>)
               (satoshis \<lparr>satoshis = Fin 1500, payeeNodeKey = ''02abc''\<rparr>)]"
    unfolding ln_entered_def by blast
  from a b c e show ?thesis by simp
qed

section \<open>Messages and buttons of the rendered form\<close>

lemma hasRoute_eq:
  "hasRoute lib p st =
     (\<not> (currentStep st = Some ''summary'' \<and> truthy_flag (isLn st)
          \<and> (fst (getFeeRange lib (case routes p of None \<Rightarrow> [] | Some rs \<Rightarrow> rs)) = None
               \<or> snd (getFeeRange lib (case routes p of None \<Rightarrow> [] | Some rs \<Rightarrow> rs)) = None)))"
  by (auto simp: hasRoute_def split: prod.splits)

lemma render_without_routes: "routes p = None \<Longrightarrow> render lib p st form = Inl TypeError"
  by (simp add: render_def renderSummary_def Let_def)

lemma render_with_routes:
  "routes p = Some rs \<Longrightarrow>
   rendered errorNoRoute (render lib p st form)
     = Some (currentStep st = Some ''summary'' \<and> \<not> isQueryingRoutes p \<and> \<not> hasRoute lib p st)
   \<and> rendered errorNotEnoughFunds (render lib p st form)
     = Some (currentStep st = Some ''summary'' \<and> \<not> hasEnoughFunds lib p st form)
   \<and> rendered buttonsDisabled (render lib p st form)
     = Some (pristine form \<or> invalid form \<or> isProcessing p
              \<or> (currentStep st = Some ''summary''
                   \<and> (\<not> hasRoute lib p st \<or> \<not> hasEnoughFunds lib p st form)))"
  by (simp add: render_def renderSummary_def Let_def rendered_def)

text \<open>
  Claim C6, as stated, fails in its last part: on the summary step of a Lightning payment
  without a fee range, while routes are being queried, the message is absent (this is one of
  the "other" states) and yet \<open>hasRoute\<close> is false. And with \<^verbatim>\<open>routes\<close> equal to \<^verbatim>\<open>null\<close> the
  condition of the message holds but nothing is rendered, because \<^verbatim>\<open>render\<close> throws.
\<close>

theorem hasRoute_while_querying_counterexample:
  "\<not> spec_noRoute example_utils (example_props\<lparr>isQueryingRoutes := True\<rparr>) (ln_state ''summary'')
   \<and> rendered errorNoRoute
        (render example_utils (example_props\<lparr>isQueryingRoutes := True\<rparr>) (ln_state ''summary'')
           (form_with ''lnbc1500'' None)) = Some False
   \<and> \<not> hasRoute example_utils (example_props\<lparr>isQueryingRoutes := True\<rparr>) (ln_state ''summary'')
   \<and> spec_noRoute example_utils (example_props\<lparr>routes := None\<rparr>) (ln_state ''summary'')
   \<and> rendered errorNoRoute
        (render example_utils (example_props\<lparr>routes := None\<rparr>) (ln_state ''summary'')
           (form_with ''lnbc1500'' None)) = None"
  by (simp add: spec_noRoute_def render_def renderSummary_def rendered_def hasRoute_def
        example_props_def example_utils_def ln_state_def Let_def)

text \<open>
  Claim C6, amended: when \<^verbatim>\<open>routes\<close> is an array, the form is rendered, and the "no route"
  message is rendered exactly when the step is \<open>summary\<close>, \<open>isLn\<close> is set, routes are not being
  queried and \<^verbatim>\<open>getFeeRange(routes)\<close> has a null minimum or maximum; in every other state it
  is absent. \<open>hasRoute\<close> is false exactly when the step is \<open>summary\<close>, \<open>isLn\<close> is set and the fee
  range has a null minimum or maximum, whether or not routes are being queried; whenever
  \<open>isLn\<close> is unset (any on-chain payment) \<open>hasRoute\<close> is true.
\<close>

theorem no_route_message:
  "(routes p = Some rs \<longrightarrow>
      rendered errorNoRoute (render lib p st form) = Some (spec_noRoute lib p st))
   \<and> (routes p = Some rs \<and> \<not> truthy_flag (isLn st) \<longrightarrow>
        rendered errorNoRoute (render lib p st form) = Some False)
   \<and> hasRoute lib p st =
       (\<not> (currentStep st = Some ''summary'' \<and> truthy_flag (isLn st)
            \<and> (fst (getFeeRange lib (case routes p of None \<Rightarrow> [] | Some rs \<Rightarrow> rs)) = None
                 \<or> snd (getFeeRange lib (case routes p of None \<Rightarrow> [] | Some rs \<Rightarrow> rs)) = None)))
   \<and> (\<not> truthy_flag (isLn st) \<longrightarrow> hasRoute lib p st)"
proof -
  have a: "routes p = Some rs \<longrightarrow>
      rendered errorNoRoute (render lib p st form) = Some (spec_noRoute lib p st)"
  proof
    assume r: "routes p = Some rs"
    have "(currentStep st = Some ''summary'' \<and> \<not> isQueryingRoutes p \<and> \<not> hasRoute lib p st)
          = spec_noRoute lib p st"
      by (auto simp: spec_noRoute_def hasRoute_eq)
    with render_with_routes [OF r, of lib st form]
    show "rendered errorNoRoute (render lib p st form) = Some (spec_noRoute lib p st)"
      by simp
  qed
  have d: "\<not> truthy_flag (isLn st) \<longrightarrow> hasRoute lib p st"
    by (simp add: hasRoute_eq)
  have b: "routes p = Some rs \<and> \<not> truthy_flag (isLn st) \<longrightarrow>
        rendered errorNoRoute (render lib p st form) = Some False"
  proof (intro impI, elim conjE)
    assume r: "routes p = Some rs" and n: "\<not> truthy_flag (isLn st)"
    from n have "\<not> spec_noRoute lib p st" by (simp add: spec_noRoute_def)
    with a r show "rendered errorNoRoute (render lib p st form) = Some False" by simp
  qed
  show ?thesis by (intro conjI a b d hasRoute_eq)
qed

theorem no_route_message_witness:
  "routes example_props = Some []
   \<and> spec_noRoute example_utils example_props (ln_state ''summary'')
   \<and> rendered errorNoRoute
        (render example_utils example_props (ln_state ''summary'') (form_with ''lnbc1500'' None))
      = Some True
   \<and> \<not> hasRoute example_utils example_props (ln_state ''summary'')
   \<and> \<not> truthy_flag (isLn (onchain_state ''summary''))
   \<and> hasRoute example_utils example_props (onchain_state ''summary'')
   \<and> rendered errorNoRoute
        (render example_utils example_props (onchain_state ''summary'')
           (form_with ''bc1q'' (Some ''2500''))) = Some False"
proof -
  note ln = no_route_message [of example_props "[]" example_utils "ln_state ''summary''"
                                "form_with ''lnbc1500'' None"]
  note oc = no_route_message [of example_props "[]" example_utils "onchain_state ''summary''"
                                "form_with ''bc1q'' (Some ''2500'')"]
  have r: "routes example_props = Some []"
    by (simp add: example_props_def)
  have a: "spec_noRoute example_utils example_props (ln_state ''summary'')"
    by (simp add: spec_noRoute_def example_props_def example_utils_def ln_state_def)
  have b: "rendered errorNoRoute
        (render example_utils example_props (ln_state ''summary'') (form_with ''lnbc1500'' None))
      = Some True"
    using ln r a by simp
  have c: "\<not> hasRoute example_utils example_props (ln_state ''summary'')"
    using ln by (simp add: example_props_def example_utils_def ln_state_def)
  have d: "\<not> truthy_flag (isLn (onchain_state ''summary''))"
    by (simp add: onchain_state_def)
  have e: "hasRoute example_utils example_props (onchain_state ''summary'')"
    using oc d by blast
  have f: "rendered errorNoRoute
        (render example_utils example_props (onchain_state ''summary'')
           (form_with ''bc1q'' (Some ''2500''))) = Some False"
    using oc r d by blast
  show ?thesis by (intro conjI r a b c d e f)
qed

lemma hasEnoughFunds_ln:
  "truthy_flag (isLn st) \<Longrightarrow> invoice st = Some i \<Longrightarrow>
   hasEnoughFunds lib p st form = js_le (satoshis i) (channelBalance p)"
  by (simp add: hasEnoughFunds_def)

lemma hasEnoughFunds_onchain:
  "\<not> (truthy_flag (isLn st) \<and> invoice st \<noteq> None) \<Longrightarrow> truthy_flag (isOnchain st) \<Longrightarrow>
   hasEnoughFunds lib p st form =
     js_le (convert lib (cryptoCurrency p) ''sats'' (amountCrypto (formValues form)))
       (walletBalance p)"
  by (auto simp: hasEnoughFunds_def split: bool.splits option.splits)

lemma hasEnoughFunds_otherwise:
  "\<not> (truthy_flag (isLn st) \<and> invoice st \<noteq> None) \<Longrightarrow> \<not> truthy_flag (isOnchain st) \<Longrightarrow>
   hasEnoughFunds lib p st form"
  by (auto simp: hasEnoughFunds_def split: bool.splits option.splits)

text \<open>
  The funds check: \<open>hasEnoughFunds\<close> is \<^verbatim>\<open>invoice.satoshis <= channelBalance\<close> when \<open>isLn\<close> is
  set and an invoice is present; otherwise, when \<open>isOnchain\<close> is set, it is the amountCrypto
  field converted to satoshis \<^verbatim>\<open><= walletBalance\<close> (in a reachable state \<open>isOnchain\<close> alone
  decides); otherwise it is true. When \<^verbatim>\<open>routes\<close> is an array, the "insufficient funds" message
  is rendered exactly on the summary step with \<open>hasEnoughFunds\<close> false, and on the summary
  step the buttons are disabled whenever \<open>hasEnoughFunds\<close> or \<open>hasRoute\<close> is false.
\<close>

lemma funds_check_rendered:
  "(truthy_flag (isLn st) \<and> invoice st = Some i \<longrightarrow>
      hasEnoughFunds lib p st form = js_le (satoshis i) (channelBalance p))
   \<and> (\<not> (truthy_flag (isLn st) \<and> invoice st \<noteq> None) \<and> truthy_flag (isOnchain st) \<longrightarrow>
        hasEnoughFunds lib p st form =
          js_le (convert lib (cryptoCurrency p) ''sats'' (amountCrypto (formValues form)))
            (walletBalance p))
   \<and> (reachable lib st \<and> truthy_flag (isOnchain st) \<longrightarrow>
        hasEnoughFunds lib p st form =
          js_le (convert lib (cryptoCurrency p) ''sats'' (amountCrypto (formValues form)))
            (walletBalance p))
   \<and> (\<not> (truthy_flag (isLn st) \<and> invoice st \<noteq> None) \<and> \<not> truthy_flag (isOnchain st) \<longrightarrow>
        hasEnoughFunds lib p st form)
   \<and> (routes p = Some rs \<longrightarrow>
        rendered errorNotEnoughFunds (render lib p st form)
          = Some (currentStep st = Some ''summary'' \<and> \<not> hasEnoughFunds lib p st form))
   \<and> (routes p = Some rs \<and> currentStep st = Some ''summary''
        \<and> (\<not> hasEnoughFunds lib p st form \<or> \<not> hasRoute lib p st) \<longrightarrow>
        rendered buttonsDisabled (render lib p st form) = Some True)"
proof -
  have a: "truthy_flag (isLn st) \<and> invoice st = Some i \<longrightarrow>
      hasEnoughFunds lib p st form = js_le (satoshis i) (channelBalance p)"
    using hasEnoughFunds_ln [of st i lib p form] by blast
  have b: "\<not> (truthy_flag (isLn st) \<and> invoice st \<noteq> None) \<and> truthy_flag (isOnchain st) \<longrightarrow>
        hasEnoughFunds lib p st form =
          js_le (convert lib (cryptoCurrency p) ''sats'' (amountCrypto (formValues form)))
            (walletBalance p)"
    using hasEnoughFunds_onchain [of st lib p form] by blast
  have c: "reachable lib st \<and> truthy_flag (isOnchain st) \<longrightarrow>
        hasEnoughFunds lib p st form =
          js_le (convert lib (cryptoCurrency p) ''sats'' (amountCrypto (formValues form)))
            (walletBalance p)"
    using hasEnoughFunds_onchain [of st lib p form] reachable_not_both [of lib st] by blast
  have d: "\<not> (truthy_flag (isLn st) \<and> invoice st \<noteq> None) \<and> \<not> truthy_flag (isOnchain st) \<longrightarrow>
        hasEnoughFunds lib p st form"
    using hasEnoughFunds_otherwise [of st lib p form] by blast
  have e: "routes p = Some rs \<longrightarrow>
        rendered errorNotEnoughFunds (render lib p st form)
          = Some (currentStep st = Some ''summary'' \<and> \<not> hasEnoughFunds lib p st form)"
    using render_with_routes [of p rs lib st form] by blast
  have f: "routes p = Some rs \<and> currentStep st = Some ''summary''
        \<and> (\<not> hasEnoughFunds lib p st form \<or> \<not> hasRoute lib p st) \<longrightarrow>
        rendered buttonsDisabled (render lib p st form) = Some True"
    using render_with_routes [of p rs lib st form] by auto
  show ?thesis by (intro conjI a b c d e f)
qed

text \<open>
  Claim C7 says that the "insufficient funds" message is rendered exactly on the summary step
  with \<open>hasEnoughFunds\<close> false, and that the buttons are then disabled. The code breaks this
  when \<^verbatim>\<open>routes\<close> is \<^verbatim>\<open>null\<close>: \<^verbatim>\<open>render\<close> throws a TypeError in \<^verbatim>\<open>renderSummary\<close>, so that
  neither the message nor the buttons are rendered, whatever the step and the funds.
\<close>

theorem render_throws_without_routes:
  "routes p = None \<Longrightarrow>
   render lib p st form = Inl TypeError
   \<and> rendered errorNotEnoughFunds (render lib p st form) = None
   \<and> rendered buttonsDisabled (render lib p st form) = None"
  by (simp add: render_without_routes rendered_def)

theorem render_throws_without_routes_witness:
  "routes (example_props\<lparr>routes := None\<rparr>) = None
   \<and> currentStep (ln_state ''summary'') = Some ''summary''
   \<and> \<not> hasEnoughFunds example_utils (example_props\<lparr>routes := None\<rparr>) (ln_state ''summary'')
         (form_with ''lnbc1500'' None)
   \<and> render example_utils (example_props\<lparr>routes := None\<rparr>) (ln_state ''summary'')
        (form_with ''lnbc1500'' None) = Inl TypeError
   \<and> rendered errorNotEnoughFunds
        (render example_utils (example_props\<lparr>routes := None\<rparr>) (ln_state ''summary'')
           (form_with ''lnbc1500'' None)) = None"
proof -
  have a: "routes (example_props\<lparr>routes := None\<rparr>) = None" by simp
  have b: "currentStep (ln_state ''summary'') = Some ''summary''"
    by (simp add: ln_state_def)
  have c: "\<not> hasEnoughFunds example_utils (example_props\<lparr>routes := None\<rparr>) (ln_state ''summary'')
         (form_with ''lnbc1500'' None)"
    by (simp add: hasEnoughFunds_def ln_state_def example_props_def)
  show ?thesis
    using a b c render_throws_without_routes [OF a, of example_utils "ln_state ''summary''"
                                                "form_with ''lnbc1500'' None"]
    by blast
qed

section \<open>The wallet dashboard\<close>

text \<open>
  Claim C9: when \<^verbatim>\<open>ticker.currency\<close> is falsy, \<^verbatim>\<open>Wallet\<close> returns \<^verbatim>\<open>null\<close>: nothing is
  rendered.
\<close>

theorem Wallet_without_currency:
  "\<not> truthy_str (currency (ticker p)) \<Longrightarrow> Wallet lib p = None"
  by (simp add: Wallet_def)

theorem Wallet_without_currency_witness:
  "\<not> truthy_str (currency (ticker (example_wallet_props None ''2500'' ''1500'')))
   \<and> Wallet example_utils (example_wallet_props None ''2500'' ''1500'') = None
   \<and> \<not> truthy_str (currency (ticker (example_wallet_props (Some []) ''2500'' ''1500'')))
   \<and> Wallet example_utils (example_wallet_props (Some []) ''2500'' ''1500'') = None"
proof -
  have a: "\<not> truthy_str (currency (ticker (example_wallet_props None ''2500'' ''1500'')))"
    and b: "\<not> truthy_str (currency (ticker (example_wallet_props (Some []) ''2500'' ''1500'')))"
    by (simp_all add: example_wallet_props_def)
  show ?thesis
    using a b Wallet_without_currency [OF a, of example_utils] Wallet_without_currency [OF b, of example_utils] by simp
qed





end
